theory Spec2Isabelle
  imports Complex_Main
begin

section \<open>Data model (types.ts)\<close>

text \<open>
  The interfaces of \<^verbatim>\<open>types.ts\<close> as records. A JavaScript \<^verbatim>\<open>number\<close> that holds a
  grid coordinate or a count is an \<open>int\<close> or a \<open>nat\<close>; one that is divided or scaled is a
  \<open>real\<close> (exact arithmetic stands for IEEE doubles). Field names that occur in several
  interfaces carry a prefix (\<open>pkg_\<close>, \<open>robot_\<close>, \<open>res_\<close>, \<open>run_\<close>, \<open>scn_\<close>, \<open>ev_\<close>), since
  record fields are global constants.
\<close>

datatype RunStage = QUEUED | WARMING_UP | RUNNING | COMPLETED | FAILED | CANCELLED

datatype Mode = Live | Replay

record GridPosition =
  pos_x :: int
  pos_y :: int

record Layout =
  width :: int
  height :: int
  cell_size :: real
  obstacles :: "GridPosition list"
  pickup_zones :: "GridPosition list"
  dropoff_zones :: "GridPosition list"
  charging_zones :: "GridPosition list option"

record SimulationPackage =
  pkg_id :: string
  pkg_position :: GridPosition
  pkg_status :: string
  assigned_robot :: "string option"
  pkg_created_at :: string

record Reservation =
  res_robot_id :: string
  res_position :: GridPosition
  expires_at :: string

record RobotTelemetry =
  robot_id :: string
  robot_state :: string
  robot_position :: GridPosition
  battery_level :: real
  current_job :: "string option"
  path :: "GridPosition list"

record SimulationState =
  packages :: "SimulationPackage list"
  reservations :: "Reservation list"
  robots :: "RobotTelemetry list"
  layout :: Layout

record RunMetrics =
  throughput_per_hour :: real
  sla_breaches :: real
  average_cycle_time_seconds :: real
  active_robots :: real
  utilization :: real
  fault_ratio :: real
  queue_depth :: real
  delivered :: real
  spawned :: real

text \<open>\<^verbatim>\<open>payload: Record<string, unknown>\<close> is opaque to the dashboard: a string stands for it.\<close>

record TimelineEventDetail =
  ev_timestamp :: string
  ev_type :: string
  ev_message :: string
  ev_payload :: string

text \<open>
  \<^verbatim>\<open>Record<string, number>\<close>: the entries in the order \<^verbatim>\<open>Object.entries\<close> lists them.
\<close>

type_synonym Heatmap = "(string \<times> real) list"

text \<open>
  \<^verbatim>\<open>created_at\<close> is an ISO date string that the dashboard only reads through
  \<^verbatim>\<open>new Date(created_at).getTime()\<close>; the record stores that number of milliseconds.
\<close>

record ScenarioRun =
  run_id :: string
  scenario_id :: string
  run_stage :: RunStage
  created_at :: int
  started_at :: "string option"
  completed_at :: "string option"
  run_metrics :: RunMetrics
  run_heatmap :: Heatmap
  error :: "string option"

record ScenarioRunDetail = ScenarioRun +
  run_state :: "SimulationState option"
  run_timeline :: "TimelineEventDetail list"

record RunTick =
  stage :: RunStage
  elapsed_seconds :: real
  state :: SimulationState
  metrics :: RunMetrics
  heatmap :: Heatmap
  recent_events :: "TimelineEventDetail list"

text \<open>
  Of \<^verbatim>\<open>ScenarioConfig\<close> the operations dashboard reads the name and the layout (whose fields
  are those of \<^verbatim>\<open>Layout\<close>); the fleet, demand and other profiles are only printed.
\<close>

record ScenarioConfig =
  name :: string
  description :: string
  config_layout :: Layout

record ScenarioSummary =
  scn_id :: string
  scn_created_at :: string
  config :: ScenarioConfig

section \<open>State of the operations dashboard (OperationsDashboard.tsx)\<close>

datatype Tone = Success | Error

record Toast =
  message :: string
  tone :: Tone

text \<open>
  A socket returned by \<^verbatim>\<open>subscribeToRun\<close> inside \<^verbatim>\<open>connect(attempt)\<close> of
  \<^verbatim>\<open>attachRunStream(runId)\<close>: its three callbacks close over \<^verbatim>\<open>runId\<close> and \<^verbatim>\<open>attempt\<close>.
\<close>

record Socket =
  sock_run :: string
  sock_attempt :: nat

text \<open>
  A timer set by \<^verbatim>\<open>window.setTimeout(() => connect(attempt + 1), delay)\<close>: the run of the
  enclosing \<^verbatim>\<open>attachRunStream\<close>, the argument that \<^verbatim>\<open>connect\<close> will get, and the delay in
  milliseconds.
\<close>

record Timer =
  timer_run :: string
  timer_attempt :: nat
  timer_delay :: nat

text \<open>
  The \<^verbatim>\<open>useState\<close> cells (those of the scenario wizard and of the launch button
  left out) and the \<^verbatim>\<open>useRef\<close> cells of the component, and three logs of
  what it asked of the outside: the number of calls of \<^verbatim>\<open>refreshRuns\<close> made by the handlers
  below (the call at mount comes before them), the sockets opened by \<^verbatim>\<open>subscribeToRun\<close>, and
  the sockets on which \<^verbatim>\<open>close(1000, ...)\<close> was called.
  The cursor is a \<open>nat\<close>: every value the component writes to it is a length minus one
  (guarded by the length being positive), zero, or the value of a range input whose minimum
  is zero.
\<close>

record Dashboard =
  scenarios :: "ScenarioSummary list"
  runs :: "ScenarioRun list"
  selectedScenario :: "ScenarioSummary option"
  activeRun :: "ScenarioRunDetail option"
  timeline :: "TimelineEventDetail list"
  tickHistory :: "RunTick list"
  mode :: Mode
  cursor :: nat
  showHeatmap :: bool
  toast :: "Toast option"
  socketRef :: "Socket option"
  modeRef :: Mode
  activeRunIdRef :: "string option"
  runStageRef :: "RunStage option"
  reconnectTimerRef :: "Timer option"
  refreshRunsCalls :: nat
  opened :: "Socket list"
  closed :: "Socket list"

definition TICK_HISTORY_LIMIT :: nat where
  "TICK_HISTORY_LIMIT = 900"

definition TIMELINE_LIMIT :: nat where
  "TIMELINE_LIMIT = 200"

text \<open>The state of the component when it mounts.\<close>

definition initial :: Dashboard where
  "initial = \<lparr> scenarios = [], runs = [], selectedScenario = None, activeRun = None,
     timeline = [], tickHistory = [], mode = Live, cursor = 0,
     showHeatmap = True, toast = None,
     socketRef = None, modeRef = Live, activeRunIdRef = None, runStageRef = None,
     reconnectTimerRef = None, refreshRunsCalls = 0, opened = [], closed = [] \<rparr>"

subsection \<open>Timer, socket and refresh\<close>

definition clearReconnectTimer :: "Dashboard \<Rightarrow> Dashboard" where
  "clearReconnectTimer s = s\<lparr>reconnectTimerRef := None\<rparr>"

definition closeSocket :: "Dashboard \<Rightarrow> Dashboard" where
  "closeSocket s =
     (let s1 = clearReconnectTimer s
      in case socketRef s1 of
           None \<Rightarrow> s1
         | Some k \<Rightarrow> s1\<lparr>closed := closed s1 @ [k], socketRef := None\<rparr>)"

text \<open>
  \<^verbatim>\<open>refreshRuns\<close> starts the request for the run list; the list arrives later, as an event
  of its own (\<open>runsLoaded\<close> below).
\<close>

definition refreshRuns :: "Dashboard \<Rightarrow> Dashboard" where
  "refreshRuns s = s\<lparr>refreshRunsCalls := Suc (refreshRunsCalls s)\<rparr>"

definition runsLoaded :: "ScenarioRun list \<Rightarrow> Dashboard \<Rightarrow> Dashboard" where
  "runsLoaded list s = s\<lparr>runs := list\<rparr>"

subsection \<open>The effects that follow a render\<close>

text \<open>Lines 151-156: the effect with dependencies \<^verbatim>\<open>[mode, tickHistory.length]\<close>.\<close>

definition modeEffect :: "Dashboard \<Rightarrow> Dashboard" where
  "modeEffect s =
     (let s1 = s\<lparr>modeRef := mode s\<rparr>
      in if mode s = Live \<and> tickHistory s \<noteq> []
         then s1\<lparr>cursor := length (tickHistory s) - 1\<rparr> else s1)"

text \<open>Lines 158-166: the effect with dependency \<^verbatim>\<open>[activeRun]\<close>.\<close>

definition activeRunEffect :: "Dashboard \<Rightarrow> Dashboard" where
  "activeRunEffect s =
     (case activeRun s of
        Some r \<Rightarrow> s\<lparr>activeRunIdRef := Some (run_id r), runStageRef := Some (run_stage r)\<rparr>
      | None \<Rightarrow> s\<lparr>activeRunIdRef := None, runStageRef := None\<rparr>)"

text \<open>
  After a handler has run, React renders and runs the effects whose dependencies changed,
  in the order of their declaration. \<open>old\<close> is the state before the handler and
  \<open>newRun\<close> says whether the handler stored a new object in \<^verbatim>\<open>activeRun\<close>.
\<close>

definition runEffects :: "Dashboard \<Rightarrow> bool \<Rightarrow> Dashboard \<Rightarrow> Dashboard" where
  "runEffects old newRun s =
     (let s1 = (if mode s \<noteq> mode old \<or> length (tickHistory s) \<noteq> length (tickHistory old)
                then modeEffect s else s)
      in if newRun then activeRunEffect s1 else s1)"

subsection \<open>handleTick\<close>

text \<open>The updater passed to \<^verbatim>\<open>setTickHistory\<close>, without its call of \<^verbatim>\<open>setCursor\<close>.\<close>

definition pushTick :: "RunTick \<Rightarrow> RunTick list \<Rightarrow> RunTick list" where
  "pushTick tick previous =
     (let next = previous @ [tick]
      in if length next > TICK_HISTORY_LIMIT then tl next else next)"

text \<open>The updater passed to \<^verbatim>\<open>setTimeline\<close>.\<close>

definition mergeTimeline ::
  "TimelineEventDetail list \<Rightarrow> TimelineEventDetail list \<Rightarrow> TimelineEventDetail list" where
  "mergeTimeline events previous =
     (let merged = previous @ events
      in if length merged > TIMELINE_LIMIT
         then drop (length merged - TIMELINE_LIMIT) merged else merged)"

definition isTerminal :: "RunStage \<Rightarrow> bool" where
  "isTerminal g = (g = COMPLETED \<or> g = FAILED \<or> g = CANCELLED)"

definition handleTick :: "RunTick \<Rightarrow> Dashboard \<Rightarrow> Dashboard" where
  "handleTick tick s =
     (let runId = activeRunIdRef s;
          s1 = s\<lparr>runStageRef := Some (stage tick)\<rparr>;
          next = pushTick tick (tickHistory s1);
          s2 = s1\<lparr>tickHistory := next,
                  cursor := (if modeRef s1 = Live then length next - 1 else cursor s1)\<rparr>;
          s3 = (case runId of
                  None \<Rightarrow> s2
                | Some rid \<Rightarrow>
                    if rid = [] then s2
                    else s2\<lparr>runs := map (\<lambda>run. if run_id run = rid
                                   then run\<lparr>run_stage := stage tick, run_metrics := metrics tick,
                                            run_heatmap := heatmap tick\<rparr>
                                   else run) (runs s2)\<rparr>);
          s4 = s3\<lparr>activeRun := map_option
                  (\<lambda>previous. previous\<lparr>run_stage := stage tick, run_metrics := metrics tick,
                      run_heatmap := heatmap tick, run_state := Some (state tick)\<rparr>)
                  (activeRun s3)\<rparr>;
          s5 = (if recent_events tick \<noteq> []
                then s4\<lparr>timeline := mergeTimeline (recent_events tick) (timeline s4)\<rparr> else s4)
      in if isTerminal (stage tick) then refreshRuns s5 else s5)"

text \<open>A tick arrives on a socket: the handler, then the effects.\<close>

definition onTick :: "RunTick \<Rightarrow> Dashboard \<Rightarrow> Dashboard" where
  "onTick tick s = runEffects s (activeRun s \<noteq> None) (handleTick tick s)"

text \<open>A sequence of ticks, in the order of arrival.\<close>

definition feed :: "RunTick list \<Rightarrow> Dashboard \<Rightarrow> Dashboard" where
  "feed ticks s = foldl (\<lambda>s' tick. onTick tick s') s ticks"

subsection \<open>attachRunStream\<close>

definition shouldReconnect :: "string \<Rightarrow> Dashboard \<Rightarrow> bool" where
  "shouldReconnect runId s =
     (if activeRunIdRef s \<noteq> Some runId then False
      else (let stage = runStageRef s
            in stage = None \<or> stage = Some WARMING_UP \<or> stage = Some RUNNING))"

definition scheduleReconnect :: "string \<Rightarrow> nat \<Rightarrow> Dashboard \<Rightarrow> Dashboard" where
  "scheduleReconnect runId attempt s =
     (let s1 = clearReconnectTimer s
      in if \<not> shouldReconnect runId s1
         then refreshRuns (s1\<lparr>reconnectTimerRef := None\<rparr>)
         else if attempt \<ge> 5
         then refreshRuns
                (s1\<lparr>toast := Some \<lparr>message = ''Run stream lost connection'', tone = Error\<rparr>,
                    reconnectTimerRef := None\<rparr>)
         else (let delay = min 5 (attempt + 1) * 1000
               in s1\<lparr>reconnectTimerRef :=
                      Some \<lparr>timer_run = runId, timer_attempt = attempt + 1,
                            timer_delay = delay\<rparr>\<rparr>))"

definition connect :: "string \<Rightarrow> nat \<Rightarrow> Dashboard \<Rightarrow> Dashboard" where
  "connect runId attempt s =
     (let s1 = clearReconnectTimer s;
          s2 = s1\<lparr>activeRunIdRef := Some runId\<rparr>;
          s3 = closeSocket s2;
          socket = \<lparr>sock_run = runId, sock_attempt = attempt\<rparr>
      in s3\<lparr>opened := opened s3 @ [socket], socketRef := Some socket\<rparr>)"

text \<open>The \<^verbatim>\<open>onError\<close> callback of the socket opened by \<^verbatim>\<open>connect(attempt)\<close>.\<close>

definition onError :: "string \<Rightarrow> nat \<Rightarrow> Dashboard \<Rightarrow> Dashboard" where
  "onError runId attempt s =
     (let s1 = (if attempt = 0
                then s\<lparr>toast := Some \<lparr>message = ''Run stream interrupted, reconnecting...'',
                                      tone = Error\<rparr>\<rparr>
                else s)
      in scheduleReconnect runId attempt s1)"

text \<open>Its \<^verbatim>\<open>onClose\<close> callback; \<open>wasClean\<close> is the flag of the close event.\<close>

definition onClose :: "string \<Rightarrow> nat \<Rightarrow> bool \<Rightarrow> Dashboard \<Rightarrow> Dashboard" where
  "onClose runId attempt wasClean s =
     (let s1 = s\<lparr>socketRef := None\<rparr>
      in if wasClean \<or> \<not> shouldReconnect runId s1
         then refreshRuns (clearReconnectTimer s1)
         else scheduleReconnect runId attempt s1)"

definition attachRunStream :: "string \<Rightarrow> Dashboard \<Rightarrow> Dashboard" where
  "attachRunStream runId s = connect runId 0 s"

text \<open>
  The pending timer fires: the browser calls \<^verbatim>\<open>connect(attempt + 1)\<close>. Every
  \<^verbatim>\<open>setTimeout\<close> of the component stores its handle in \<^verbatim>\<open>reconnectTimerRef\<close> after
  clearing the handle stored before, and every \<^verbatim>\<open>clearTimeout\<close> empties the cell, so the
  only timer that can fire is the one in the cell.
\<close>

definition fireTimer :: "Dashboard \<Rightarrow> Dashboard" where
  "fireTimer s =
     (case reconnectTimerRef s of
        None \<Rightarrow> s
      | Some t \<Rightarrow> connect (timer_run t) (timer_attempt t) s)"

subsection \<open>handleRunSelect\<close>

definition isLiveStage :: "RunStage \<Rightarrow> bool" where
  "isLiveStage g = (g = RUNNING \<or> g = WARMING_UP)"

definition seedTick :: "ScenarioRunDetail \<Rightarrow> RunTick list" where
  "seedTick detail =
     (case run_state detail of
        Some st \<Rightarrow> [\<lparr>stage = run_stage detail, elapsed_seconds = 0, state = st,
                     metrics = run_metrics detail, heatmap = run_heatmap detail,
                     recent_events = []\<rparr>]
      | None \<Rightarrow> [])"

text \<open>
  The body of \<^verbatim>\<open>handleRunSelect(runId)\<close> after both requests have answered with
  \<open>detail\<close> and \<open>timelineSeed\<close>.
\<close>

definition handleRunSelect ::
  "string \<Rightarrow> ScenarioRunDetail \<Rightarrow> TimelineEventDetail list \<Rightarrow> Dashboard \<Rightarrow> Dashboard" where
  "handleRunSelect runId detail timelineSeed s =
     (let s1 = s\<lparr>runStageRef := Some (run_stage detail),
                  activeRunIdRef := Some (run_id detail),
                  activeRun := Some detail,
                  timeline := drop (length timelineSeed - TIMELINE_LIMIT) timelineSeed,
                  selectedScenario :=
                    (case selectedScenario s of
                       Some previous \<Rightarrow>
                         if scn_id previous = scenario_id detail then Some previous
                         else (case find (\<lambda>item. scn_id item = scenario_id detail) (scenarios s) of
                                 Some matched \<Rightarrow> Some matched
                               | None \<Rightarrow> Some previous)
                     | None \<Rightarrow> find (\<lambda>item. scn_id item = scenario_id detail) (scenarios s))\<rparr>;
          seed = seedTick detail;
          isLive = isLiveStage (run_stage detail);
          s2 = s1\<lparr>tickHistory := seed,
                  mode := (if isLive then Live else if seed \<noteq> [] then Replay else Live),
                  cursor := (if seed \<noteq> [] then length seed - 1 else 0)\<rparr>
      in if isLive then attachRunStream runId s2 else closeSocket s2)"

text \<open>Its \<^verbatim>\<open>catch\<close> branch, when a request fails with \<open>msg\<close>.\<close>

definition handleRunSelectFailed :: "string \<Rightarrow> Dashboard \<Rightarrow> Dashboard" where
  "handleRunSelectFailed msg s = s\<lparr>toast := Some \<lparr>message = msg, tone = Error\<rparr>\<rparr>"

definition onRunSelected ::
  "string \<Rightarrow> ScenarioRunDetail \<Rightarrow> TimelineEventDetail list \<Rightarrow> Dashboard \<Rightarrow> Dashboard" where
  "onRunSelected runId detail timelineSeed s =
     runEffects s True (handleRunSelect runId detail timelineSeed s)"

subsection \<open>Mode buttons and the playback slider\<close>

text \<open>
  \<^verbatim>\<open>setMode(m)\<close> gives the state of the next render; the effects follow it.
\<close>

definition setMode :: "Mode \<Rightarrow> Dashboard \<Rightarrow> Dashboard" where
  "setMode m s = s\<lparr>mode := m\<rparr>"

definition changeMode :: "Mode \<Rightarrow> Dashboard \<Rightarrow> Dashboard" where
  "changeMode m s = runEffects s False (setMode m s)"

text \<open>
  The range input of \<^verbatim>\<open>RunPlaybackControls\<close>: it is disabled unless the mode is replay and
  the history holds more than one tick, and its value lies between its \<^verbatim>\<open>min\<close> (0) and its
  \<^verbatim>\<open>max\<close> (\<^verbatim>\<open>maxIndex\<close>); \<^verbatim>\<open>onSeek\<close> is \<^verbatim>\<open>setCursor\<close>.
\<close>

definition seek :: "nat \<Rightarrow> Dashboard \<Rightarrow> Dashboard" where
  "seek index s =
     (let historyLength = length (tickHistory s);
          disableReplay = (historyLength \<le> 1);
          maxIndex = (if historyLength = 0 then 0 else historyLength - 1)
      in if mode s \<noteq> Replay \<or> disableReplay then s
         else s\<lparr>cursor := min index maxIndex\<rparr>)"

subsection \<open>Scenario list\<close>

text \<open>The success branch of \<^verbatim>\<open>refreshScenarios\<close>.\<close>

definition scenariosLoaded :: "ScenarioSummary list \<Rightarrow> Dashboard \<Rightarrow> Dashboard" where
  "scenariosLoaded list s =
     s\<lparr>scenarios := list,
       selectedScenario :=
         (let first = (case list of [] \<Rightarrow> None | item # _ \<Rightarrow> Some item)
          in case selectedScenario s of
               Some previous \<Rightarrow>
                 (case find (\<lambda>item. scn_id item = scn_id previous) list of
                    Some updated \<Rightarrow> Some updated
                  | None \<Rightarrow> first)
             | None \<Rightarrow> first)\<rparr>"

text \<open>The \<^verbatim>\<open>onSelect\<close> of the scenario catalog is \<^verbatim>\<open>setSelectedScenario\<close>.\<close>

definition selectScenario :: "ScenarioSummary \<Rightarrow> Dashboard \<Rightarrow> Dashboard" where
  "selectScenario scenario s = s\<lparr>selectedScenario := Some scenario\<rparr>"

subsection \<open>Events\<close>

text \<open>
  Every mutation is the reaction to one event, and reactions do not overlap: a handler and
  the effects after it are one transition. The events are those that write the history, the
  mode, the cursor, the active run, the lists or the cells of the run stream; creating,
  launching and cancelling act through them (a launch ends in \<^verbatim>\<open>handleRunSelect\<close>).
\<close>

datatype Event =
    Tick RunTick
  | ModeChange Mode
  | Seek nat
  | RunSelected string ScenarioRunDetail "TimelineEventDetail list"
  | RunSelectFailed string
  | SocketError string nat
  | SocketClose string nat bool
  | TimerFired
  | RunsLoaded "ScenarioRun list"
  | ScenariosLoaded "ScenarioSummary list"
  | ScenarioPicked ScenarioSummary

fun step :: "Event \<Rightarrow> Dashboard \<Rightarrow> Dashboard" where
  "step (Tick tick) s = onTick tick s"
| "step (ModeChange m) s = changeMode m s"
| "step (Seek index) s = seek index s"
| "step (RunSelected runId detail timelineSeed) s = onRunSelected runId detail timelineSeed s"
| "step (RunSelectFailed msg) s = handleRunSelectFailed msg s"
| "step (SocketError runId attempt) s = onError runId attempt s"
| "step (SocketClose runId attempt wasClean) s = onClose runId attempt wasClean s"
| "step TimerFired s = fireTimer s"
| "step (RunsLoaded list) s = runsLoaded list s"
| "step (ScenariosLoaded list) s = scenariosLoaded list s"
| "step (ScenarioPicked scenario) s = selectScenario scenario s"

definition run :: "Event list \<Rightarrow> Dashboard \<Rightarrow> Dashboard" where
  "run events s = foldl (\<lambda>s' e. step e s') s events"

subsection \<open>What a render hands to the canvas\<close>

text \<open>
  \<^verbatim>\<open>tickHistory[cursor] ?? tickHistory[tickHistory.length - 1]\<close>: an index past the end
  reads \<^verbatim>\<open>undefined\<close>, and \<^verbatim>\<open>??\<close> then takes the last element.
\<close>

definition activeTick :: "Dashboard \<Rightarrow> RunTick option" where
  "activeTick s =
     (if tickHistory s = [] then None
      else if mode s = Replay
      then (if cursor s < length (tickHistory s)
            then Some (tickHistory s ! cursor s)
            else Some (tickHistory s ! (length (tickHistory s) - 1)))
      else Some (tickHistory s ! (length (tickHistory s) - 1)))"

definition currentState :: "Dashboard \<Rightarrow> SimulationState option" where
  "currentState s =
     (case activeTick s of
        Some tick \<Rightarrow> Some (state tick)
      | None \<Rightarrow> (case activeRun s of Some r \<Rightarrow> run_state r | None \<Rightarrow> None))"

definition currentMetrics :: "Dashboard \<Rightarrow> RunMetrics option" where
  "currentMetrics s =
     (case activeTick s of
        Some tick \<Rightarrow> Some (metrics tick)
      | None \<Rightarrow> (case activeRun s of Some r \<Rightarrow> Some (run_metrics r) | None \<Rightarrow> None))"

definition currentHeatmap :: "Dashboard \<Rightarrow> Heatmap" where
  "currentHeatmap s =
     (case activeTick s of
        Some tick \<Rightarrow> heatmap tick
      | None \<Rightarrow> (case activeRun s of Some r \<Rightarrow> run_heatmap r | None \<Rightarrow> []))"

definition activeScenario :: "Dashboard \<Rightarrow> ScenarioSummary option" where
  "activeScenario s =
     (case activeRun s of
        Some r \<Rightarrow>
          (case find (\<lambda>item. scn_id item = scenario_id r) (scenarios s) of
             Some match \<Rightarrow> Some match
           | None \<Rightarrow> selectedScenario s)
      | None \<Rightarrow> selectedScenario s)"

definition fallbackLayout :: "Dashboard \<Rightarrow> Layout option" where
  "fallbackLayout s =
     (case activeScenario s of
        None \<Rightarrow> None
      | Some scenario \<Rightarrow>
          (let l = config_layout (config scenario)
           in Some \<lparr>width = width l, height = height l, cell_size = cell_size l,
                     obstacles = obstacles l, pickup_zones = pickup_zones l,
                     dropoff_zones = dropoff_zones l, charging_zones = charging_zones l\<rparr>))"

text \<open>The properties of \<^verbatim>\<open><WarehouseCanvas>\<close> and of \<^verbatim>\<open><MetricsPanel>\<close>.\<close>

record CanvasProps =
  prop_layout :: "Layout option"
  prop_packages :: "SimulationPackage list"
  prop_robots :: "RobotTelemetry list"
  prop_reservations :: "Reservation list"
  prop_heatmap :: "Heatmap option"
  prop_showHeatmap :: bool
  prop_metrics :: "RunMetrics option"

text \<open>The canvas is part of the page only while a run is active.\<close>

definition canvasProps :: "Dashboard \<Rightarrow> CanvasProps option" where
  "canvasProps s =
     (if activeRun s = None then None
      else Some
        \<lparr>prop_layout = (case currentState s of Some st \<Rightarrow> Some (layout st)
                                              | None \<Rightarrow> fallbackLayout s),
         prop_packages = (case currentState s of Some st \<Rightarrow> packages st | None \<Rightarrow> []),
         prop_robots = (case currentState s of Some st \<Rightarrow> robots st | None \<Rightarrow> []),
         prop_reservations = (case currentState s of Some st \<Rightarrow> reservations st | None \<Rightarrow> []),
         prop_heatmap = (if showHeatmap s then Some (currentHeatmap s) else None),
         prop_showHeatmap = showHeatmap s,
         prop_metrics = currentMetrics s\<rparr>)"

subsection \<open>The auto-select effect\<close>

text \<open>
  Lines 397-414. \<^verbatim>\<open>Array.prototype.sort\<close> is stable, and so is \<open>sort_key\<close>; the comparator
  \<^verbatim>\<open>b - a\<close> on the creation times orders by decreasing time.
\<close>

definition matchingRuns :: "ScenarioSummary \<Rightarrow> ScenarioRun list \<Rightarrow> ScenarioRun list" where
  "matchingRuns selected rs =
     sort_key (\<lambda>r. - created_at r) (filter (\<lambda>r. scenario_id r = scn_id selected) rs)"

definition preferredRun :: "Dashboard \<Rightarrow> ScenarioRun option" where
  "preferredRun s =
     (case selectedScenario s of
        None \<Rightarrow> None
      | Some selected \<Rightarrow>
          if runs s = [] then None
          else (case matchingRuns selected (runs s) of
                  [] \<Rightarrow> None
                | first # rest \<Rightarrow>
                    (case find (\<lambda>r. run_stage r = RUNNING \<or> run_stage r = WARMING_UP)
                            (first # rest) of
                       Some live \<Rightarrow> Some live
                     | None \<Rightarrow> Some first)))"

text \<open>The run id with which the effect calls \<^verbatim>\<open>handleRunSelect\<close>, if it calls it.\<close>

definition autoSelect :: "Dashboard \<Rightarrow> string option" where
  "autoSelect s =
     (case preferredRun s of
        None \<Rightarrow> None
      | Some preferred \<Rightarrow>
          if Some (run_id preferred) \<noteq> map_option run_id (activeRun s)
          then Some (run_id preferred) else None)"

section \<open>The heatmap layer (WarehouseCanvas.tsx)\<close>

text \<open>
  The 2-D context, as far as \<^verbatim>\<open>drawHeatmap\<close> uses it: the current alpha and fill style, and
  the log of the calls of \<^verbatim>\<open>fillRect\<close>, each with the alpha and the style it was made with.
  Assigning a number outside 0..1 to \<^verbatim>\<open>globalAlpha\<close> leaves it as it was.
\<close>

datatype FillStyle =
    Colour string
  | LinearGradient real real real real "(real \<times> string) list"

record Fill =
  fill_x :: real
  fill_y :: real
  fill_w :: real
  fill_h :: real
  fill_alpha :: real
  fill_style :: FillStyle

record Context2D =
  globalAlpha :: real
  fillStyle :: FillStyle
  fills :: "Fill list"

definition setGlobalAlpha :: "real \<Rightarrow> Context2D \<Rightarrow> Context2D" where
  "setGlobalAlpha v ctx = (if 0 \<le> v \<and> v \<le> 1 then ctx\<lparr>globalAlpha := v\<rparr> else ctx)"

definition fillRect :: "real \<Rightarrow> real \<Rightarrow> real \<Rightarrow> real \<Rightarrow> Context2D \<Rightarrow> Context2D" where
  "fillRect px py w h ctx =
     ctx\<lparr>fills := fills ctx @
            [\<lparr>fill_x = px, fill_y = py, fill_w = w, fill_h = h,
              fill_alpha = globalAlpha ctx, fill_style = fillStyle ctx\<rparr>]\<rparr>"

text \<open>A fill made with alpha 0 changes no pixel: what can be seen are the other fills.\<close>

definition visibleFills :: "Context2D \<Rightarrow> Fill list" where
  "visibleFills ctx = filter (\<lambda>f. 0 < fill_alpha f) (fills ctx)"

definition HEATMAP_COLORS :: "(real \<times> string) list" where
  "HEATMAP_COLORS =
     [(0, ''rgba(30, 64, 175, 0)''), (0.2, ''rgba(30, 64, 175, 0.35)''),
      (0.4, ''rgba(37, 99, 235, 0.45)''), (0.6, ''rgba(59, 130, 246, 0.55)''),
      (0.8, ''rgba(239, 68, 68, 0.65)''), (1, ''rgba(220, 38, 38, 0.78)'')]"

text \<open>\<^verbatim>\<open>key.split(":")\<close>.\<close>

fun split_colon :: "string \<Rightarrow> string list" where
  "split_colon [] = [[]]"
| "split_colon (c # cs) =
     (if c = CHR '':'' then [] # split_colon cs
      else (case split_colon cs of
              [] \<Rightarrow> [[c]]
            | part # parts \<Rightarrow> (c # part) # parts))"

text \<open>
  \<^verbatim>\<open>Number.parseInt(text, 10)\<close>: leading white space is skipped, then an optional sign, then
  the longest run of decimal digits; without a digit the result is \<^verbatim>\<open>NaN\<close>, which is
  \<open>None\<close>. A missing array element (\<^verbatim>\<open>undefined\<close>) gives \<^verbatim>\<open>NaN\<close> too.

  A \<open>string\<close> holds the UTF-8 bytes of the JavaScript string. The white space of
  \<^verbatim>\<open>parseInt\<close> is the white space and the line terminators of ECMAScript: the six ASCII
  characters, U+00A0 (two bytes), and U+1680, U+2000 to U+200A, U+2028, U+2029, U+202F,
  U+205F, U+3000 and U+FEFF (three bytes each).
\<close>

definition isWhiteSpace :: "char \<Rightarrow> bool" where
  "isWhiteSpace c = (c \<in> set [CHR 0x09, CHR 0x0A, CHR 0x0B, CHR 0x0C, CHR 0x0D, CHR 0x20])"

definition isWhiteSpace2 :: "string \<Rightarrow> bool" where
  "isWhiteSpace2 bytes = (bytes = [CHR 0xC2, CHR 0xA0])"

definition isWhiteSpace3 :: "string \<Rightarrow> bool" where
  "isWhiteSpace3 bytes =
     (bytes \<in> set
        [[CHR 0xE1, CHR 0x9A, CHR 0x80],
         [CHR 0xE2, CHR 0x80, CHR 0x80], [CHR 0xE2, CHR 0x80, CHR 0x81],
         [CHR 0xE2, CHR 0x80, CHR 0x82], [CHR 0xE2, CHR 0x80, CHR 0x83],
         [CHR 0xE2, CHR 0x80, CHR 0x84], [CHR 0xE2, CHR 0x80, CHR 0x85],
         [CHR 0xE2, CHR 0x80, CHR 0x86], [CHR 0xE2, CHR 0x80, CHR 0x87],
         [CHR 0xE2, CHR 0x80, CHR 0x88], [CHR 0xE2, CHR 0x80, CHR 0x89],
         [CHR 0xE2, CHR 0x80, CHR 0x8A],
         [CHR 0xE2, CHR 0x80, CHR 0xA8], [CHR 0xE2, CHR 0x80, CHR 0xA9],
         [CHR 0xE2, CHR 0x80, CHR 0xAF], [CHR 0xE2, CHR 0x81, CHR 0x9F],
         [CHR 0xE3, CHR 0x80, CHR 0x80], [CHR 0xEF, CHR 0xBB, CHR 0xBF]])"

function skipWhiteSpace :: "string \<Rightarrow> string" where
  "skipWhiteSpace [] = []"
| "skipWhiteSpace (c # cs) =
     (if isWhiteSpace c then skipWhiteSpace cs
      else if isWhiteSpace2 (take 2 (c # cs)) then skipWhiteSpace (drop 1 cs)
      else if isWhiteSpace3 (take 3 (c # cs)) then skipWhiteSpace (drop 2 cs)
      else c # cs)"
  by pat_completeness auto
termination
  by (relation "measure length") auto

definition isDigit :: "char \<Rightarrow> bool" where
  "isDigit c = (48 \<le> (of_char c :: nat) \<and> (of_char c :: nat) \<le> 57)"

definition digitValue :: "char \<Rightarrow> int" where
  "digitValue c = int (of_char c :: nat) - 48"

definition parseDigits :: "string \<Rightarrow> int option" where
  "parseDigits text =
     (let digits = takeWhile isDigit text
      in if digits = [] then None
         else Some (foldl (\<lambda>acc d. 10 * acc + digitValue d) 0 digits))"

definition parseInt :: "string option \<Rightarrow> int option" where
  "parseInt raw =
     (case raw of
        None \<Rightarrow> None
      | Some text \<Rightarrow>
          (case skipWhiteSpace text of
             [] \<Rightarrow> None
           | c # cs \<Rightarrow>
               if c = CHR ''-'' then map_option uminus (parseDigits cs)
               else if c = CHR ''+'' then parseDigits cs
               else parseDigits (c # cs)))"

text \<open>The two coordinates that \<^verbatim>\<open>drawHeatmap\<close> reads from a key, if both are numbers.\<close>

definition cellOf :: "string \<Rightarrow> (int \<times> int) option" where
  "cellOf key =
     (let parts = split_colon key;
          xRaw = (if 0 < length parts then Some (parts ! 0) else None);
          yRaw = (if 1 < length parts then Some (parts ! 1) else None)
      in case (parseInt xRaw, parseInt yRaw) of
           (Some cx, Some cy) \<Rightarrow> Some (cx, cy)
         | _ \<Rightarrow> None)"

definition cellGradient :: "real \<Rightarrow> int \<times> int \<Rightarrow> FillStyle" where
  "cellGradient sz cell =
     (case cell of (cx, cy) \<Rightarrow>
        LinearGradient (real_of_int cx * sz) (real_of_int cy * sz)
          ((real_of_int cx + 1) * sz) ((real_of_int cy + 1) * sz) HEATMAP_COLORS)"

text \<open>The body of the \<^verbatim>\<open>forEach\<close> over the entries.\<close>

definition drawEntry :: "real \<Rightarrow> real \<Rightarrow> Context2D \<Rightarrow> string \<times> real \<Rightarrow> Context2D" where
  "drawEntry sz maxCount ctx entry =
     (case entry of (key, count) \<Rightarrow>
        (case cellOf key of
           None \<Rightarrow> ctx
         | Some (cx, cy) \<Rightarrow>
             (let intensity = min (count / maxCount) 1;
                  ctx1 = setGlobalAlpha intensity ctx;
                  ctx2 = ctx1\<lparr>fillStyle := cellGradient sz (cx, cy)\<rparr>
              in fillRect (real_of_int cx * sz) (real_of_int cy * sz) sz sz ctx2)))"

definition drawHeatmap :: "Context2D \<Rightarrow> Heatmap option \<Rightarrow> real \<Rightarrow> Context2D" where
  "drawHeatmap ctx hm sz =
     (case hm of
        None \<Rightarrow> ctx
      | Some entries \<Rightarrow>
          if entries = [] then ctx
          else (let maxCount = Max (set (map snd entries))
                in if maxCount \<le> 0 then ctx
                   else (foldl (drawEntry sz maxCount) ctx entries)\<lparr>globalAlpha := 1\<rparr>))"

text \<open>The fill that an entry whose key names a cell asks for.\<close>

definition entryFill :: "real \<Rightarrow> real \<Rightarrow> string \<times> real \<Rightarrow> Fill option" where
  "entryFill sz maxCount entry =
     (case entry of (key, count) \<Rightarrow>
        map_option
          (\<lambda>cell. \<lparr>fill_x = real_of_int (fst cell) * sz, fill_y = real_of_int (snd cell) * sz,
                    fill_w = sz, fill_h = sz, fill_alpha = count / maxCount,
                    fill_style = cellGradient sz cell\<rparr>)
          (cellOf key))"

section \<open>Invariants and failing connections\<close>

text \<open>
  The invariant of the replay controller: the mode cell and its mirror \<^verbatim>\<open>modeRef\<close> agree, and
  in live mode the cursor is the last index of a non-empty history.
\<close>

definition liveInvariant :: "Dashboard \<Rightarrow> bool" where
  "liveInvariant s =
     (modeRef s = mode s \<and>
      (mode s = Live \<and> tickHistory s \<noteq> [] \<longrightarrow> cursor s = length (tickHistory s) - 1))"

text \<open>
  A pending timer belongs to the run that \<^verbatim>\<open>activeRunIdRef\<close> names, and so does the active run.
\<close>

definition refsAgree :: "Dashboard \<Rightarrow> bool" where
  "refsAgree s =
     ((case reconnectTimerRef s of
         None \<Rightarrow> True
       | Some t \<Rightarrow> activeRunIdRef s = Some (timer_run t))
      \<and> (case activeRun s of
            None \<Rightarrow> True
          | Some r \<Rightarrow> activeRunIdRef s = Some (run_id r)))"

text \<open>
  The connection numbered \<open>k\<close> of a run fails: the timer set by the failure before it (if
  any) fires and opens it, then its socket reports an error and closes uncleanly.
  \<open>failedAttempts runId n\<close> is the state after the connections 0 to \<open>n - 1\<close> have failed.
\<close>

fun failedAttempts :: "string \<Rightarrow> nat \<Rightarrow> Dashboard \<Rightarrow> Dashboard" where
  "failedAttempts runId 0 s = s"
| "failedAttempts runId (Suc k) s =
     onClose runId k False (onError runId k (fireTimer (failedAttempts runId k s)))"

definition lostToast :: Toast where
  "lostToast = \<lparr>message = ''Run stream lost connection'', tone = Error\<rparr>"

section \<open>Sample values\<close>

definition sampleLayout :: Layout where
  "sampleLayout = \<lparr>width = 4, height = 3, cell_size = 20, obstacles = [],
     pickup_zones = [\<lparr>pos_x = 0, pos_y = 0\<rparr>], dropoff_zones = [\<lparr>pos_x = 3, pos_y = 2\<rparr>],
     charging_zones = None\<rparr>"

definition sampleMetrics :: RunMetrics where
  "sampleMetrics = \<lparr>throughput_per_hour = 12, sla_breaches = 0, average_cycle_time_seconds = 30,
     active_robots = 1, utilization = 1/2, fault_ratio = 0, queue_depth = 2, delivered = 3,
     spawned = 5\<rparr>"

definition sampleRobot :: RobotTelemetry where
  "sampleRobot = \<lparr>robot_id = ''AGV-1'', robot_state = ''moving'',
     robot_position = \<lparr>pos_x = 1, pos_y = 1\<rparr>, battery_level = 80, current_job = None,
     path = []\<rparr>"

definition sampleState :: SimulationState where
  "sampleState = \<lparr>packages = [], reservations = [], robots = [sampleRobot],
     layout = sampleLayout\<rparr>"

definition sampleTick :: "nat \<Rightarrow> RunTick" where
  "sampleTick n = \<lparr>stage = RUNNING, elapsed_seconds = real n, state = sampleState,
     metrics = sampleMetrics, heatmap = [(''1:1'', real n)], recent_events = []\<rparr>"

definition sampleDetail :: ScenarioRunDetail where
  "sampleDetail = \<lparr>run_id = ''run-1'', scenario_id = ''scn-1'', run_stage = RUNNING,
     created_at = 1000, started_at = None, completed_at = None, run_metrics = sampleMetrics,
     run_heatmap = [], error = None, run_state = Some sampleState, run_timeline = []\<rparr>"

definition liveTrace :: "Event list" where
  "liveTrace = [RunSelected ''run-1'' sampleDetail [], Tick (sampleTick 1), Tick (sampleTick 2),
     ModeChange Replay, Seek 0, Tick (sampleTick 3)]"

definition replayTrace :: "Event list" where
  "replayTrace = RunSelected ''run-1'' sampleDetail [] # map (\<lambda>n. Tick (sampleTick n)) [1..<50]
     @ [ModeChange Replay, Seek 10]"

definition completedDetail :: ScenarioRunDetail where
  "completedDetail = \<lparr>run_id = ''run-2'', scenario_id = ''scn-1'', run_stage = COMPLETED,
     created_at = 500, started_at = None, completed_at = None, run_metrics = sampleMetrics,
     run_heatmap = [(''1:1'', 7)], error = None, run_state = Some sampleState,
     run_timeline = []\<rparr>"

definition queuedDetail :: ScenarioRunDetail where
  "queuedDetail = \<lparr>run_id = ''run-3'', scenario_id = ''scn-1'', run_stage = QUEUED,
     created_at = 2000, started_at = None, completed_at = None, run_metrics = sampleMetrics,
     run_heatmap = [], error = None, run_state = None, run_timeline = []\<rparr>"

definition sampleEvent :: "nat \<Rightarrow> TimelineEventDetail" where
  "sampleEvent n = \<lparr>ev_timestamp = ''2024-01-01T00:00:00Z'', ev_type = ''delivery'',
     ev_message = replicate n CHR ''x'', ev_payload = ''{}''\<rparr>"

definition liveState :: Dashboard where
  "liveState = onRunSelected ''run-1'' sampleDetail [] initial"

definition pendingState :: Dashboard where
  "pendingState = onError ''run-1'' 0 liveState"

definition switchedState :: Dashboard where
  "switchedState = onRunSelected ''run-2'' completedDetail [] pendingState"

definition completedTick :: RunTick where
  "completedTick = \<lparr>stage = COMPLETED, elapsed_seconds = 60, state = sampleState,
     metrics = sampleMetrics, heatmap = [], recent_events = []\<rparr>"

definition otherLayout :: Layout where
  "otherLayout = \<lparr>width = 10, height = 8, cell_size = 16, obstacles = [\<lparr>pos_x = 2, pos_y = 2\<rparr>],
     pickup_zones = [], dropoff_zones = [], charging_zones = Some []\<rparr>"

definition scenarioA :: ScenarioSummary where
  "scenarioA = \<lparr>scn_id = ''scn-1'', scn_created_at = ''2024-01-01'',
     config = \<lparr>name = ''Small'', description = ''small floor'', config_layout = sampleLayout\<rparr>\<rparr>"

definition scenarioB :: ScenarioSummary where
  "scenarioB = \<lparr>scn_id = ''scn-2'', scn_created_at = ''2024-01-02'',
     config = \<lparr>name = ''Large'', description = ''large floor'', config_layout = otherLayout\<rparr>\<rparr>"

text \<open>
  Two ticks are buffered and the operator has scrubbed to index 0; then the operator clicks
  "Go live": the state of the render that follows the click (its effects come after it).
\<close>

definition scrubbedState :: Dashboard where
  "scrubbedState = run [RunSelected ''run-1'' sampleDetail [], Tick (sampleTick 1),
     ModeChange Replay, Seek 0] initial"

definition goLiveRender :: Dashboard where
  "goLiveRender = setMode Live scrubbedState"

text \<open>
  A queued run of the first scenario is shown (it has no state yet), and the operator
  inspects the second scenario, which has no runs.
\<close>

definition queuedView :: Dashboard where
  "queuedView = run [ScenariosLoaded [scenarioA, scenarioB],
     RunSelected ''run-3'' queuedDetail [], ScenarioPicked scenarioB] initial"

definition runOne :: ScenarioRun where
  "runOne = \<lparr>run_id = ''run-1'', scenario_id = ''scn-1'', run_stage = RUNNING,
     created_at = 1000, started_at = None, completed_at = None, run_metrics = sampleMetrics,
     run_heatmap = [], error = None\<rparr>"

definition runTwo :: ScenarioRun where
  "runTwo = \<lparr>run_id = ''run-2'', scenario_id = ''scn-1'', run_stage = COMPLETED,
     created_at = 500, started_at = None, completed_at = None, run_metrics = sampleMetrics,
     run_heatmap = [(''1:1'', 7)], error = None\<rparr>"

definition runThree :: ScenarioRun where
  "runThree = \<lparr>run_id = ''run-3'', scenario_id = ''scn-1'', run_stage = QUEUED,
     created_at = 2000, started_at = None, completed_at = None, run_metrics = sampleMetrics,
     run_heatmap = [], error = None\<rparr>"

text \<open>
  The catalog and the run list have loaded and the effect has selected the running run; then
  the operator picks the older, completed run of the same scenario in the run history.
\<close>

definition catalogState :: Dashboard where
  "catalogState = run [ScenariosLoaded [scenarioA], RunsLoaded [runTwo, runOne]] initial"

definition manualState :: Dashboard where
  "manualState = run [RunSelected ''run-1'' sampleDetail [],
     RunSelected ''run-2'' completedDetail []] catalogState"

definition finishedState :: Dashboard where
  "finishedState = run [ScenariosLoaded [scenarioA], RunsLoaded [runTwo, runThree]] initial"

definition blankContext :: Context2D where
  "blankContext = \<lparr>globalAlpha = 1, fillStyle = Colour ''#000000'', fills = []\<rparr>"

definition sampleHeatmap :: Heatmap where
  "sampleHeatmap = [(''0:0'', 10), (''1:0'', 5), (''2:0'', 0)]"

section \<open>Verification\<close>

subsection \<open>The tick history\<close>

lemma tickHistory_handleTick: "tickHistory (handleTick tick s) = pushTick tick (tickHistory s)"
  by (simp add: handleTick_def Let_def refreshRuns_def split: option.splits)

lemma tickHistory_runEffects: "tickHistory (runEffects old b s) = tickHistory s"
  by (simp add: runEffects_def modeEffect_def activeRunEffect_def Let_def split: option.splits)

lemma tickHistory_onTick: "tickHistory (onTick tick s) = pushTick tick (tickHistory s)"
  by (simp add: onTick_def tickHistory_runEffects tickHistory_handleTick)

lemma tickHistory_feed:
  "tickHistory (feed ticks s) = foldl (\<lambda>h tick. pushTick tick h) (tickHistory s) ticks"
  unfolding feed_def
  by (induction ticks arbitrary: s) (simp_all add: tickHistory_onTick)

lemma pushTick_drop:
  "pushTick tick (drop (length xs - TICK_HISTORY_LIMIT) xs)
     = drop (length (xs @ [tick]) - TICK_HISTORY_LIMIT) (xs @ [tick])"
proof (cases "TICK_HISTORY_LIMIT \<le> length xs")
  case True
  let ?k = "length xs - TICK_HISTORY_LIMIT"
  have pos: "0 < TICK_HISTORY_LIMIT" by (simp add: TICK_HISTORY_LIMIT_def)
  from True pos have ne: "drop ?k xs \<noteq> []" by simp
  from True have len: "length (drop ?k xs @ [tick]) > TICK_HISTORY_LIMIT" by simp
  have "pushTick tick (drop ?k xs) = tl (drop ?k xs @ [tick])"
    using len by (simp add: pushTick_def Let_def)
  also have "\<dots> = drop (Suc ?k) xs @ [tick]"
    using ne by (simp add: drop_Suc tl_drop)
  also have "\<dots> = drop (Suc ?k) (xs @ [tick])"
    using True pos by simp
  also have "Suc ?k = length (xs @ [tick]) - TICK_HISTORY_LIMIT"
    using True by simp
  finally show ?thesis .
next
  case False
  then show ?thesis by (simp add: pushTick_def Let_def)
qed

lemma foldl_pushTick:
  "foldl (\<lambda>h tick. pushTick tick h) (drop (length xs - TICK_HISTORY_LIMIT) xs) ticks
     = drop (length (xs @ ticks) - TICK_HISTORY_LIMIT) (xs @ ticks)"
proof (induction ticks arbitrary: xs)
  case Nil
  then show ?case by simp
next
  case (Cons t ts)
  show ?case
    using Cons.IH [of "xs @ [t]"] by (simp add: pushTick_drop)
qed

lemma tickHistory_feed_drop:
  assumes "length (tickHistory s) \<le> TICK_HISTORY_LIMIT"
  shows "tickHistory (feed ticks s)
           = drop (length (tickHistory s @ ticks) - TICK_HISTORY_LIMIT) (tickHistory s @ ticks)"
proof -
  from assms have "drop (length (tickHistory s) - TICK_HISTORY_LIMIT) (tickHistory s) = tickHistory s"
    by simp
  then show ?thesis
    using foldl_pushTick [of "tickHistory s" ticks] by (simp add: tickHistory_feed)
qed

text \<open>
  Claim C1. Starting from a history of at most 900 ticks (the empty history of a fresh
  dashboard, or the seed of a selected run), after every tick of a sequence handled by
  \<^verbatim>\<open>handleTick\<close> the history holds at most 900 ticks; it is the last 900 elements of the
  old history followed by the ticks, in the order of arrival; once more than 900 ticks have
  arrived it is exactly the 900 newest of them; and a tick that arrives at a full history
  drops the head and is kept at the tail.
\<close>

theorem tick_history_cap:
  assumes "length (tickHistory s) \<le> 900"
  shows "(\<forall>k. length (tickHistory (feed (take k ticks) s)) \<le> 900)
       \<and> tickHistory (feed ticks s)
           = drop (length (tickHistory s @ ticks) - 900) (tickHistory s @ ticks)
       \<and> (900 < length ticks \<longrightarrow>
            tickHistory (feed ticks s) = drop (length ticks - 900) ticks
          \<and> length (tickHistory (feed ticks s)) = 900)
       \<and> (length (tickHistory s) = 900 \<longrightarrow>
            tickHistory (onTick tick s) = tl (tickHistory s) @ [tick])
       \<and> (length (tickHistory s) < 900 \<longrightarrow>
            tickHistory (onTick tick s) = tickHistory s @ [tick])"
proof -
  from assms have le: "length (tickHistory s) \<le> TICK_HISTORY_LIMIT"
    by (simp add: TICK_HISTORY_LIMIT_def)
  have eq: "tickHistory (feed ts s)
           = drop (length (tickHistory s @ ts) - 900) (tickHistory s @ ts)" for ts
    using tickHistory_feed_drop [OF le, of ts] by (simp add: TICK_HISTORY_LIMIT_def)
  have bound: "length (tickHistory (feed (take k ticks) s)) \<le> 900" for k
    using assms by (simp add: eq [of "take k ticks"])
  have late: "tickHistory (feed ticks s) = drop (length ticks - 900) ticks
          \<and> length (tickHistory (feed ticks s)) = 900" if "900 < length ticks"
    using that assms by (simp add: eq [of ticks])
  have full: "tickHistory (onTick tick s) = tl (tickHistory s) @ [tick]"
    if "length (tickHistory s) = 900"
  proof -
    from that have "tickHistory s \<noteq> []" by auto
    with that show ?thesis
      by (simp add: tickHistory_onTick pushTick_def Let_def TICK_HISTORY_LIMIT_def)
  qed
  have room: "tickHistory (onTick tick s) = tickHistory s @ [tick]"
    if "length (tickHistory s) < 900"
    using that by (simp add: tickHistory_onTick pushTick_def Let_def TICK_HISTORY_LIMIT_def)
  from bound eq [of ticks] late full room show ?thesis by blast
qed

theorem tick_history_cap_witness:
  "length (tickHistory initial) \<le> 900
   \<and> 900 < length (map sampleTick [0..<901])
   \<and> tickHistory (feed (map sampleTick [0..<901]) initial) = map sampleTick [1..<901]
   \<and> length (tickHistory (feed (map sampleTick [0..<900]) initial)) = 900
   \<and> tickHistory (onTick (sampleTick 900) (feed (map sampleTick [0..<900]) initial))
       = tl (map sampleTick [0..<900]) @ [sampleTick 900]"
proof -
  have h: "length (tickHistory initial) \<le> 900" by (simp add: initial_def)
  have e: "tickHistory initial = []" by (simp add: initial_def)
  note a = tick_history_cap [OF h, of "map sampleTick [0..<901]" "sampleTick 0"]
  have b: "tickHistory (feed (map sampleTick [0..<900]) initial) = map sampleTick [0..<900]"
    using tick_history_cap [OF h, of "map sampleTick [0..<900]" "sampleTick 0"] by (simp add: e)
  have h2: "length (tickHistory (feed (map sampleTick [0..<900]) initial)) \<le> 900"
    by (simp add: b)
  note c = tick_history_cap [OF h2, of "[]" "sampleTick 900"]
  from a have "tickHistory (feed (map sampleTick [0..<901]) initial) = map sampleTick [1..<901]"
    by (simp add: e drop_map)
  moreover from c have "tickHistory (onTick (sampleTick 900) (feed (map sampleTick [0..<900]) initial))
       = tl (map sampleTick [0..<900]) @ [sampleTick 900]"
    by (simp add: b)
  ultimately show ?thesis using h b by simp
qed

subsection \<open>The replay controller\<close>

lemma pushTick_nonempty: "pushTick tick h \<noteq> []"
  by (cases h) (auto simp add: pushTick_def Let_def TICK_HISTORY_LIMIT_def)

lemma mode_handleTick: "mode (handleTick tick s) = mode s"
  by (simp add: handleTick_def Let_def refreshRuns_def split: option.splits)

lemma modeRef_handleTick: "modeRef (handleTick tick s) = modeRef s"
  by (simp add: handleTick_def Let_def refreshRuns_def split: option.splits)

lemma cursor_handleTick:
  "cursor (handleTick tick s)
     = (if modeRef s = Live then length (pushTick tick (tickHistory s)) - 1 else cursor s)"
  by (simp add: handleTick_def Let_def refreshRuns_def split: option.splits)

lemma liveInvariant_onTick: "liveInvariant s \<Longrightarrow> liveInvariant (onTick tick s)"
  by (simp add: liveInvariant_def onTick_def runEffects_def modeEffect_def activeRunEffect_def
      Let_def mode_handleTick modeRef_handleTick cursor_handleTick tickHistory_handleTick
      pushTick_nonempty split: option.splits if_splits)

lemma liveInvariant_changeMode: "liveInvariant s \<Longrightarrow> liveInvariant (changeMode m s)"
  by (auto simp add: liveInvariant_def changeMode_def setMode_def runEffects_def modeEffect_def
      Let_def split: if_splits)

lemma liveInvariant_seek: "liveInvariant s \<Longrightarrow> liveInvariant (seek i s)"
  by (auto simp add: liveInvariant_def seek_def Let_def split: if_splits)

lemma handleRunSelect_fields:
  "tickHistory (handleRunSelect runId detail seed s) = seedTick detail"
  "mode (handleRunSelect runId detail seed s)
     = (if isLiveStage (run_stage detail) then Live
        else if seedTick detail \<noteq> [] then Replay else Live)"
  "cursor (handleRunSelect runId detail seed s) = 0"
  "modeRef (handleRunSelect runId detail seed s) = modeRef s"
  "timeline (handleRunSelect runId detail seed s) = drop (length seed - TIMELINE_LIMIT) seed"
  "activeRun (handleRunSelect runId detail seed s) = Some detail"
  by (simp_all add: handleRunSelect_def Let_def attachRunStream_def connect_def closeSocket_def
      clearReconnectTimer_def seedTick_def split: option.splits)

lemma liveInvariant_onRunSelected:
  "liveInvariant s \<Longrightarrow> liveInvariant (onRunSelected runId detail seed s)"
  by (auto simp add: liveInvariant_def onRunSelected_def runEffects_def modeEffect_def
      activeRunEffect_def Let_def handleRunSelect_fields seedTick_def
      split: option.splits if_splits)

lemma liveInvariant_step:
  assumes "liveInvariant s"
  shows "liveInvariant (step e s)"
proof (cases e)
  case (Tick t)
  with assms show ?thesis by (simp add: liveInvariant_onTick)
next
  case (ModeChange m)
  with assms show ?thesis by (simp add: liveInvariant_changeMode)
next
  case (Seek i)
  with assms show ?thesis by (simp add: liveInvariant_seek)
next
  case (RunSelected r d seed)
  with assms show ?thesis by (simp add: liveInvariant_onRunSelected)
next
  case (RunSelectFailed m)
  with assms show ?thesis by (simp add: liveInvariant_def handleRunSelectFailed_def)
next
  case (SocketError r a)
  with assms show ?thesis
    by (simp add: liveInvariant_def onError_def scheduleReconnect_def clearReconnectTimer_def
        refreshRuns_def Let_def)
next
  case (SocketClose r a w)
  with assms show ?thesis
    by (simp add: liveInvariant_def onClose_def scheduleReconnect_def clearReconnectTimer_def
        refreshRuns_def Let_def)
next
  case TimerFired
  with assms show ?thesis
    by (simp add: liveInvariant_def fireTimer_def connect_def closeSocket_def
        clearReconnectTimer_def Let_def split: option.splits)
next
  case (RunsLoaded l)
  with assms show ?thesis by (simp add: liveInvariant_def runsLoaded_def)
next
  case (ScenariosLoaded l)
  with assms show ?thesis by (simp add: liveInvariant_def scenariosLoaded_def)
next
  case (ScenarioPicked l)
  with assms show ?thesis by (simp add: liveInvariant_def selectScenario_def)
qed

lemma liveInvariant_run: "liveInvariant s \<Longrightarrow> liveInvariant (run events s)"
  unfolding run_def
  by (induction events arbitrary: s) (simp_all add: liveInvariant_step)

lemma liveInvariant_initial: "liveInvariant initial"
  by (simp add: liveInvariant_def initial_def)

lemma liveInvariant_reachable: "liveInvariant (run events initial)"
  by (rule liveInvariant_run [OF liveInvariant_initial])

lemma run_Nil: "run [] s = s"
  by (simp add: run_def)

lemma run_Cons: "run (e # es) s = run es (step e s)"
  by (simp add: run_def)

lemma run_append: "run (es @ fs) s = run fs (run es s)"
  by (simp add: run_def)

lemma run_ticks: "run (map Tick ticks) s = feed ticks s"
  unfolding run_def feed_def by (induction ticks arbitrary: s) simp_all

lemma mode_onTick: "mode (onTick tick s) = mode s"
  by (simp add: onTick_def runEffects_def modeEffect_def activeRunEffect_def Let_def
      mode_handleTick split: option.splits)

lemma mode_feed: "mode (feed ticks s) = mode s"
  unfolding feed_def by (induction ticks arbitrary: s) (simp_all add: mode_onTick)

lemma cursor_onTick_replay:
  assumes "liveInvariant s" and "mode s = Replay"
  shows "cursor (onTick tick s) = cursor s"
  using assms
  by (simp add: liveInvariant_def onTick_def runEffects_def modeEffect_def activeRunEffect_def
      Let_def mode_handleTick cursor_handleTick split: option.splits)

lemma cursor_onTick_live:
  assumes "liveInvariant s" and "mode s = Live"
  shows "cursor (onTick tick s) = length (tickHistory (onTick tick s)) - 1"
  using liveInvariant_onTick [OF assms(1), of tick] assms(2)
  by (simp add: liveInvariant_def mode_onTick tickHistory_onTick pushTick_nonempty)

lemma changeMode_fields:
  "mode (changeMode m s) = m"
  "tickHistory (changeMode m s) = tickHistory s"
  "cursor (changeMode Replay s) = cursor s"
  by (simp_all add: changeMode_def setMode_def runEffects_def modeEffect_def Let_def)

lemma cursor_changeMode_live:
  assumes "liveInvariant s" and "tickHistory s \<noteq> []"
  shows "cursor (changeMode Live s) = length (tickHistory s) - 1"
  using assms
  by (auto simp add: liveInvariant_def changeMode_def setMode_def runEffects_def modeEffect_def
      Let_def)

lemma activeTick_replay:
  assumes "mode s = Replay" and "cursor s < length (tickHistory s)"
  shows "activeTick s = Some (tickHistory s ! cursor s)"
  using assms by (auto simp add: activeTick_def)

lemma scrubbedState_fields:
  "mode scrubbedState = Replay"
  "cursor scrubbedState = 0"
  "tickHistory scrubbedState = seedTick sampleDetail @ [sampleTick 1]"
  by (code_simp)+

text \<open>
  Claim C3, as stated, fails: "Go live" only calls \<^verbatim>\<open>setMode\<close>, and the cursor is set by an
  effect that runs after the render that follows. With two ticks buffered and the operator
  at index 0 in replay mode, that render has the mode live, a non-empty history and the
  cursor at 0, not at the last index 1.
\<close>

theorem live_cursor_counterexample:
  "goLiveRender = setMode Live scrubbedState
   \<and> mode goLiveRender = Live
   \<and> length (tickHistory goLiveRender) = 2
   \<and> cursor goLiveRender = 0
   \<and> cursor goLiveRender \<noteq> length (tickHistory goLiveRender) - 1"
  by (simp add: goLiveRender_def setMode_def scrubbedState_fields seedTick_def sampleDetail_def)

text \<open>
  Claim C3, amended. In every settled state, that is every state that the dashboard reaches
  from its initial state by handlers followed by their effects, live mode with a non-empty
  history has the cursor at the last index; switching to live puts the cursor at the last
  index once the mode effect has run, while the render between \<^verbatim>\<open>setMode\<close> and that effect
  still has the cursor of before; and a tick handled in live mode moves the cursor to the
  last index of the new history.
\<close>

theorem live_cursor_follows_tail:
  "(mode (run events initial) = Live \<and> tickHistory (run events initial) \<noteq> [] \<longrightarrow>
      cursor (run events initial) = length (tickHistory (run events initial)) - 1)
   \<and> (tickHistory (run events initial) \<noteq> [] \<longrightarrow>
        mode (changeMode Live (run events initial)) = Live
      \<and> cursor (changeMode Live (run events initial))
          = length (tickHistory (changeMode Live (run events initial))) - 1)
   \<and> (mode (run events initial) = Live \<longrightarrow>
        mode (onTick tick (run events initial)) = Live
      \<and> tickHistory (onTick tick (run events initial))
          = pushTick tick (tickHistory (run events initial))
      \<and> cursor (onTick tick (run events initial))
          = length (tickHistory (onTick tick (run events initial))) - 1)
   \<and> mode (setMode Live s) = Live
   \<and> tickHistory (setMode Live s) = tickHistory s
   \<and> cursor (setMode Live s) = cursor s"
proof -
  let ?s = "run events initial"
  have d: "mode (setMode Live s) = Live
      \<and> tickHistory (setMode Live s) = tickHistory s
      \<and> cursor (setMode Live s) = cursor s"
    by (simp add: setMode_def)
  have inv: "liveInvariant ?s" by (rule liveInvariant_reachable)
  then have a: "mode ?s = Live \<and> tickHistory ?s \<noteq> [] \<longrightarrow> cursor ?s = length (tickHistory ?s) - 1"
    by (simp add: liveInvariant_def)
  have b: "tickHistory ?s \<noteq> [] \<longrightarrow> mode (changeMode Live ?s) = Live
      \<and> cursor (changeMode Live ?s) = length (tickHistory (changeMode Live ?s)) - 1"
    using cursor_changeMode_live [OF inv] by (simp add: changeMode_fields)
  have c: "mode ?s = Live \<longrightarrow> mode (onTick tick ?s) = Live
      \<and> tickHistory (onTick tick ?s) = pushTick tick (tickHistory ?s)
      \<and> cursor (onTick tick ?s) = length (tickHistory (onTick tick ?s)) - 1"
    using cursor_onTick_live [OF inv, of tick] by (simp add: mode_onTick tickHistory_onTick)
  from a b c d show ?thesis by blast
qed

lemma liveTrace_state:
  "mode (run liveTrace initial) = Replay \<and> cursor (run liveTrace initial) = 0
   \<and> tickHistory (run liveTrace initial)
       = seedTick sampleDetail @ [sampleTick 1, sampleTick 2, sampleTick 3]"
  by code_simp

theorem live_cursor_follows_tail_witness:
  "tickHistory (run liveTrace initial) \<noteq> []
   \<and> mode (run liveTrace initial) = Replay \<and> cursor (run liveTrace initial) = 0
   \<and> mode (run (liveTrace @ [ModeChange Live]) initial) = Live
   \<and> tickHistory (run (liveTrace @ [ModeChange Live]) initial) \<noteq> []
   \<and> cursor (run (liveTrace @ [ModeChange Live]) initial) = 3
   \<and> cursor (onTick (sampleTick 4) (run (liveTrace @ [ModeChange Live]) initial)) = 4"
proof -
  let ?r = "run liveTrace initial"
  let ?l = "run (liveTrace @ [ModeChange Live]) initial"
  have l: "?l = changeMode Live ?r" by (simp add: run_append run_Cons run_Nil)
  have ne: "tickHistory ?r \<noteq> []" using liveTrace_state by (simp add: seedTick_def sampleDetail_def)
  have len: "length (tickHistory ?r) = 4"
    using liveTrace_state by (simp add: seedTick_def sampleDetail_def)
  from live_cursor_follows_tail [of liveTrace] ne
  have c3: "mode ?l = Live \<and> cursor ?l = 3"
    by (simp add: l changeMode_fields len)
  have h3: "tickHistory ?l = tickHistory ?r" by (simp add: l changeMode_fields)
  from live_cursor_follows_tail [of "liveTrace @ [ModeChange Live]" "sampleTick 4"] c3
  have "cursor (onTick (sampleTick 4) ?l) = 4"
    by (simp add: h3 pushTick_def Let_def TICK_HISTORY_LIMIT_def len)
  with c3 ne h3 liveTrace_state show ?thesis by simp
qed

text \<open>
  Claim C4. Switching to replay keeps the cursor. In every reachable state in replay mode a
  tick that arrives keeps the mode and the cursor; and while the history is below its cap
  and the cursor is inside it, the tick shown before and after is the same element: with the
  cursor at 10 of 50 ticks the frame stays at index 10 when tick 51 arrives.
\<close>

theorem replay_cursor_frozen:
  "mode (changeMode Replay s) = Replay
   \<and> cursor (changeMode Replay s) = cursor s
   \<and> (mode (run events initial) = Replay \<longrightarrow>
        mode (onTick tick (run events initial)) = Replay
      \<and> cursor (onTick tick (run events initial)) = cursor (run events initial))
   \<and> (mode (run events initial) = Replay
        \<and> cursor (run events initial) < length (tickHistory (run events initial))
        \<and> length (tickHistory (run events initial)) < 900 \<longrightarrow>
        activeTick (onTick tick (run events initial))
          = Some (tickHistory (run events initial) ! cursor (run events initial))
      \<and> activeTick (run events initial)
          = Some (tickHistory (run events initial) ! cursor (run events initial)))"
proof -
  let ?s = "run events initial"
  have inv: "liveInvariant ?s" by (rule liveInvariant_reachable)
  have a: "mode ?s = Replay \<longrightarrow> mode (onTick tick ?s) = Replay
             \<and> cursor (onTick tick ?s) = cursor ?s"
    using cursor_onTick_replay [OF inv, of tick] by (simp add: mode_onTick)
  have b: "activeTick (onTick tick ?s) = Some (tickHistory ?s ! cursor ?s)
         \<and> activeTick ?s = Some (tickHistory ?s ! cursor ?s)"
    if r: "mode ?s = Replay" and c: "cursor ?s < length (tickHistory ?s)"
      and l: "length (tickHistory ?s) < 900"
  proof -
    from l have h: "tickHistory (onTick tick ?s) = tickHistory ?s @ [tick]"
      by (simp add: tickHistory_onTick pushTick_def Let_def TICK_HISTORY_LIMIT_def)
    from a r have m: "mode (onTick tick ?s) = Replay" and k: "cursor (onTick tick ?s) = cursor ?s"
      by simp_all
    from c have "activeTick (onTick tick ?s) = Some ((tickHistory ?s @ [tick]) ! cursor ?s)"
      using activeTick_replay [of "onTick tick ?s"] by (simp add: m k h)
    with c activeTick_replay [OF r c] show ?thesis by (simp add: nth_append)
  qed
  from a b show ?thesis by (simp add: changeMode_fields)
qed

lemma replayTrace_state:
  "mode (run replayTrace initial) = Replay \<and> cursor (run replayTrace initial) = 10
   \<and> tickHistory (run replayTrace initial) = seedTick sampleDetail @ map sampleTick [1..<50]"
proof -
  let ?s1 = "onRunSelected ''run-1'' sampleDetail [] initial"
  let ?s2 = "feed (map sampleTick [1..<50]) ?s1"
  have r: "run replayTrace initial = seek 10 (changeMode Replay ?s2)"
    using run_ticks [of "map sampleTick [1..<50]" ?s1]
    by (simp add: replayTrace_def run_Cons run_append run_Nil comp_def)
  have h1: "tickHistory ?s1 = seedTick sampleDetail"
    by (simp add: onRunSelected_def tickHistory_runEffects handleRunSelect_fields)
  have l1: "length (seedTick sampleDetail) = 1"
    by (simp add: seedTick_def sampleDetail_def)
  have h2: "tickHistory ?s2 = seedTick sampleDetail @ map sampleTick [1..<50]"
    using tickHistory_feed_drop [of ?s1 "map sampleTick [1..<50]"]
    by (simp add: h1 l1 TICK_HISTORY_LIMIT_def)
  show ?thesis
    using h2 by (simp add: r seek_def Let_def changeMode_fields l1)
qed

theorem replay_cursor_frozen_witness:
  "mode (run replayTrace initial) = Replay
   \<and> length (tickHistory (run replayTrace initial)) = 50
   \<and> cursor (run replayTrace initial) = 10
   \<and> cursor (onTick (sampleTick 50) (run replayTrace initial)) = 10
   \<and> length (tickHistory (onTick (sampleTick 50) (run replayTrace initial))) = 51
   \<and> activeTick (run replayTrace initial) = Some (sampleTick 10)
   \<and> activeTick (onTick (sampleTick 50) (run replayTrace initial)) = Some (sampleTick 10)
   \<and> cursor (changeMode Replay (run (liveTrace @ [ModeChange Live]) initial))
       = cursor (run (liveTrace @ [ModeChange Live]) initial)"
proof -
  let ?s = "run replayTrace initial"
  have l1: "length (seedTick sampleDetail) = 1"
    by (simp add: seedTick_def sampleDetail_def)
  have st: "mode ?s = Replay" "cursor ?s = 10" "length (tickHistory ?s) = 50"
    using replayTrace_state by (simp_all add: l1)
  have nth: "tickHistory ?s ! 10 = sampleTick 10"
    using replayTrace_state by (simp add: nth_append l1)
  have len: "length (tickHistory (onTick (sampleTick 50) ?s)) = 51"
    by (simp add: tickHistory_onTick pushTick_def Let_def TICK_HISTORY_LIMIT_def st)
  from replay_cursor_frozen [of "run (liveTrace @ [ModeChange Live]) initial" replayTrace
      "sampleTick 50"] st nth len
  show ?thesis by simp
qed

subsection \<open>Selecting a run\<close>

lemma onRunSelected_fields:
  "tickHistory (onRunSelected runId detail seed s) = seedTick detail"
  "mode (onRunSelected runId detail seed s)
     = (if isLiveStage (run_stage detail) then Live
        else if seedTick detail \<noteq> [] then Replay else Live)"
  "cursor (onRunSelected runId detail seed s) = 0"
  "timeline (onRunSelected runId detail seed s) = drop (length seed - TIMELINE_LIMIT) seed"
  "activeRun (onRunSelected runId detail seed s) = Some detail"
  "activeRunIdRef (onRunSelected runId detail seed s) = Some (run_id detail)"
  by (simp_all add: onRunSelected_def runEffects_def modeEffect_def activeRunEffect_def Let_def
      handleRunSelect_fields seedTick_def split: option.splits)

text \<open>
  Claim C9. The active run is one optional value. When a selected run has been fetched, the
  handler stores its detail as the active run, and the tick history and the timeline become
  the seed tick of that detail and the last 200 events of the fetched timeline: neither
  depends on the state before, so nothing of the run shown before is kept.
\<close>

theorem run_switch_replaces_buffers:
  "activeRun (onRunSelected runId detail seed s) = Some detail
   \<and> activeRunIdRef (onRunSelected runId detail seed s) = Some (run_id detail)
   \<and> tickHistory (onRunSelected runId detail seed s) = seedTick detail
   \<and> timeline (onRunSelected runId detail seed s) = drop (length seed - 200) seed
   \<and> tickHistory (handleRunSelect runId detail seed s) = seedTick detail
   \<and> timeline (handleRunSelect runId detail seed s) = drop (length seed - 200) seed
   \<and> tickHistory (onRunSelected runId detail seed s)
       = tickHistory (onRunSelected runId detail seed initial)
   \<and> timeline (onRunSelected runId detail seed s)
       = timeline (onRunSelected runId detail seed initial)"
  by (simp add: onRunSelected_fields handleRunSelect_fields TIMELINE_LIMIT_def)

theorem run_switch_replaces_buffers_witness:
  "length (tickHistory (run replayTrace initial)) = 50
   \<and> tickHistory (onRunSelected ''run-2'' completedDetail [sampleEvent 1, sampleEvent 2]
        (run replayTrace initial)) = seedTick completedDetail
   \<and> length (seedTick completedDetail) = 1
   \<and> timeline (onRunSelected ''run-2'' completedDetail [sampleEvent 1, sampleEvent 2]
        (run replayTrace initial)) = [sampleEvent 1, sampleEvent 2]
   \<and> activeRun (onRunSelected ''run-2'' completedDetail [sampleEvent 1, sampleEvent 2]
        (run replayTrace initial)) = Some completedDetail"
  using run_switch_replaces_buffers [of "''run-2''" completedDetail
      "[sampleEvent 1, sampleEvent 2]" "run replayTrace initial"] replayTrace_state
  by (simp add: seedTick_def completedDetail_def sampleDetail_def)

text \<open>
  Claim C10. A fetched detail with a state snapshot seeds the history with one tick that
  carries the stage, state, metrics and heatmap of the detail, zero elapsed seconds and no
  events, with the cursor at 0; the mode is live when the stage is RUNNING or WARMING_UP and
  replay otherwise. A detail without a snapshot gives the empty history, live mode and
  cursor 0.
\<close>

theorem run_select_seeds_history:
  "(run_state detail = Some st \<longrightarrow>
      tickHistory (onRunSelected runId detail seed s)
        = [\<lparr>stage = run_stage detail, elapsed_seconds = 0, state = st,
            metrics = run_metrics detail, heatmap = run_heatmap detail, recent_events = []\<rparr>]
    \<and> cursor (onRunSelected runId detail seed s) = 0
    \<and> mode (onRunSelected runId detail seed s)
        = (if run_stage detail = RUNNING \<or> run_stage detail = WARMING_UP then Live else Replay))
   \<and> (run_state detail = None \<longrightarrow>
        tickHistory (onRunSelected runId detail seed s) = []
      \<and> mode (onRunSelected runId detail seed s) = Live
      \<and> cursor (onRunSelected runId detail seed s) = 0)"
  by (simp add: onRunSelected_fields seedTick_def isLiveStage_def)

theorem run_select_seeds_history_witness:
  "run_state completedDetail = Some sampleState
   \<and> tickHistory (onRunSelected ''run-2'' completedDetail [] initial)
       = [\<lparr>stage = COMPLETED, elapsed_seconds = 0, state = sampleState,
           metrics = sampleMetrics, heatmap = [(''1:1'', 7)], recent_events = []\<rparr>]
   \<and> mode (onRunSelected ''run-2'' completedDetail [] initial) = Replay
   \<and> cursor (onRunSelected ''run-2'' completedDetail [] initial) = 0
   \<and> run_state sampleDetail = Some sampleState
   \<and> mode (onRunSelected ''run-1'' sampleDetail [] initial) = Live
   \<and> run_state queuedDetail = None
   \<and> tickHistory (onRunSelected ''run-3'' queuedDetail [] initial) = []
   \<and> mode (onRunSelected ''run-3'' queuedDetail [] initial) = Live
   \<and> cursor (onRunSelected ''run-3'' queuedDetail [] initial) = 0"
  using run_select_seeds_history [of completedDetail sampleState "''run-2''" "[]" initial]
    run_select_seeds_history [of sampleDetail sampleState "''run-1''" "[]" initial]
    run_select_seeds_history [of queuedDetail sampleState "''run-3''" "[]" initial]
  by (simp add: completedDetail_def sampleDetail_def queuedDetail_def)

subsection \<open>The run stream\<close>

lemma shouldReconnect_iff:
  "shouldReconnect runId s
     = (activeRunIdRef s = Some runId
        \<and> (runStageRef s = None \<or> runStageRef s = Some WARMING_UP \<or> runStageRef s = Some RUNNING))"
  by (simp add: shouldReconnect_def Let_def)

lemma shouldReconnect_cong:
  "activeRunIdRef s' = activeRunIdRef s \<Longrightarrow> runStageRef s' = runStageRef s
     \<Longrightarrow> shouldReconnect runId s' = shouldReconnect runId s"
  by (simp add: shouldReconnect_def)

lemma scheduleReconnect_abandon:
  assumes "\<not> shouldReconnect runId s"
  shows "scheduleReconnect runId attempt s
           = s\<lparr>reconnectTimerRef := None, refreshRunsCalls := Suc (refreshRunsCalls s)\<rparr>"
proof -
  have "shouldReconnect runId (clearReconnectTimer s) = shouldReconnect runId s"
    by (rule shouldReconnect_cong) (simp_all add: clearReconnectTimer_def)
  with assms show ?thesis
    by (simp add: scheduleReconnect_def Let_def clearReconnectTimer_def refreshRuns_def)
qed

lemma scheduleReconnect_retry:
  assumes "shouldReconnect runId s" and "attempt < 5"
  shows "scheduleReconnect runId attempt s
           = s\<lparr>reconnectTimerRef := Some \<lparr>timer_run = runId, timer_attempt = attempt + 1,
                  timer_delay = min 5 (attempt + 1) * 1000\<rparr>\<rparr>"
proof -
  have "shouldReconnect runId (clearReconnectTimer s) = shouldReconnect runId s"
    by (rule shouldReconnect_cong) (simp_all add: clearReconnectTimer_def)
  with assms show ?thesis
    by (simp add: scheduleReconnect_def Let_def clearReconnectTimer_def)
qed

lemma scheduleReconnect_exhausted:
  assumes "shouldReconnect runId s" and "5 \<le> attempt"
  shows "scheduleReconnect runId attempt s
           = s\<lparr>toast := Some lostToast, reconnectTimerRef := None,
               refreshRunsCalls := Suc (refreshRunsCalls s)\<rparr>"
proof -
  have "shouldReconnect runId (clearReconnectTimer s) = shouldReconnect runId s"
    by (rule shouldReconnect_cong) (simp_all add: clearReconnectTimer_def)
  with assms show ?thesis
    by (simp add: scheduleReconnect_def Let_def clearReconnectTimer_def refreshRuns_def
        lostToast_def)
qed

lemma scheduleReconnect_timer:
  "reconnectTimerRef (scheduleReconnect runId attempt s) \<noteq> None \<Longrightarrow> shouldReconnect runId s"
  using scheduleReconnect_abandon [of runId s attempt] by (cases "shouldReconnect runId s") auto

lemma onError_timer:
  "reconnectTimerRef (onError runId attempt s) \<noteq> None \<Longrightarrow> shouldReconnect runId s"
proof -
  assume a: "reconnectTimerRef (onError runId attempt s) \<noteq> None"
  let ?s1 = "if attempt = 0
             then s\<lparr>toast := Some \<lparr>message = ''Run stream interrupted, reconnecting...'',
                                   tone = Error\<rparr>\<rparr>
             else s"
  from a have "shouldReconnect runId ?s1"
    using scheduleReconnect_timer [of runId attempt ?s1] by (simp add: onError_def Let_def)
  moreover have "shouldReconnect runId ?s1 = shouldReconnect runId s"
    by (rule shouldReconnect_cong) simp_all
  ultimately show ?thesis by simp
qed

lemma onClose_timer:
  "reconnectTimerRef (onClose runId attempt wasClean s) \<noteq> None
     \<Longrightarrow> shouldReconnect runId s \<and> \<not> wasClean"
proof -
  assume a: "reconnectTimerRef (onClose runId attempt wasClean s) \<noteq> None"
  have c: "shouldReconnect runId (s\<lparr>socketRef := None\<rparr>) = shouldReconnect runId s"
    by (rule shouldReconnect_cong) simp_all
  show ?thesis
  proof (cases "wasClean \<or> \<not> shouldReconnect runId s")
    case True
    with a c show ?thesis
      by (simp add: onClose_def Let_def refreshRuns_def clearReconnectTimer_def)
  next
    case False
    then show ?thesis by simp
  qed
qed

lemma onError_abandon:
  assumes "\<not> shouldReconnect runId s"
  shows "reconnectTimerRef (onError runId attempt s) = None"
    and "opened (onError runId attempt s) = opened s"
    and "refreshRunsCalls (onError runId attempt s) = Suc (refreshRunsCalls s)"
    and "fireTimer (onError runId attempt s) = onError runId attempt s"
proof -
  let ?s1 = "if attempt = 0
             then s\<lparr>toast := Some \<lparr>message = ''Run stream interrupted, reconnecting...'',
                                   tone = Error\<rparr>\<rparr>
             else s"
  have "shouldReconnect runId ?s1 = shouldReconnect runId s"
    by (rule shouldReconnect_cong) simp_all
  with assms have n: "\<not> shouldReconnect runId ?s1" by simp
  have e: "onError runId attempt s = scheduleReconnect runId attempt ?s1"
    by (simp add: onError_def Let_def)
  show "reconnectTimerRef (onError runId attempt s) = None"
    and "opened (onError runId attempt s) = opened s"
    and "refreshRunsCalls (onError runId attempt s) = Suc (refreshRunsCalls s)"
    unfolding e scheduleReconnect_abandon [OF n] by simp_all
  then show "fireTimer (onError runId attempt s) = onError runId attempt s"
    by (simp add: fireTimer_def)
qed

lemma onClose_abandon:
  assumes "wasClean \<or> \<not> shouldReconnect runId s"
  shows "reconnectTimerRef (onClose runId attempt wasClean s) = None"
    and "opened (onClose runId attempt wasClean s) = opened s"
    and "refreshRunsCalls (onClose runId attempt wasClean s) = Suc (refreshRunsCalls s)"
    and "fireTimer (onClose runId attempt wasClean s) = onClose runId attempt wasClean s"
proof -
  have c: "shouldReconnect runId (s\<lparr>socketRef := None\<rparr>) = shouldReconnect runId s"
    by (rule shouldReconnect_cong) simp_all
  with assms show "reconnectTimerRef (onClose runId attempt wasClean s) = None"
    and "opened (onClose runId attempt wasClean s) = opened s"
    and "refreshRunsCalls (onClose runId attempt wasClean s) = Suc (refreshRunsCalls s)"
    by (simp_all add: onClose_def Let_def refreshRuns_def clearReconnectTimer_def)
  then show "fireTimer (onClose runId attempt wasClean s) = onClose runId attempt wasClean s"
    by (simp add: fireTimer_def)
qed

lemma handleRunSelect_timer:
  "reconnectTimerRef (handleRunSelect runId detail seed s) = None"
  by (simp add: handleRunSelect_def Let_def attachRunStream_def connect_def closeSocket_def
      clearReconnectTimer_def split: option.splits)

lemma handleRunSelect_opened:
  "opened (handleRunSelect runId detail seed s)
     = opened s @ (if isLiveStage (run_stage detail)
                   then [\<lparr>sock_run = runId, sock_attempt = 0\<rparr>] else [])"
  by (simp add: handleRunSelect_def Let_def attachRunStream_def connect_def closeSocket_def
      clearReconnectTimer_def split: option.splits)

lemma runEffects_refs:
  "reconnectTimerRef (runEffects old b s) = reconnectTimerRef s"
  "opened (runEffects old b s) = opened s"
  "activeRun (runEffects old b s) = activeRun s"
  "refreshRunsCalls (runEffects old b s) = refreshRunsCalls s"
  by (simp_all add: runEffects_def modeEffect_def activeRunEffect_def Let_def
      split: option.splits)

lemma onRunSelected_timer:
  "reconnectTimerRef (onRunSelected runId detail seed s) = None"
  "opened (onRunSelected runId detail seed s)
     = opened s @ (if isLiveStage (run_stage detail)
                   then [\<lparr>sock_run = runId, sock_attempt = 0\<rparr>] else [])"
  "fireTimer (onRunSelected runId detail seed s) = onRunSelected runId detail seed s"
  by (simp_all add: onRunSelected_def runEffects_refs handleRunSelect_timer
      handleRunSelect_opened fireTimer_def)

lemma handleTick_refs:
  "reconnectTimerRef (handleTick tick s) = reconnectTimerRef s"
  "activeRunIdRef (handleTick tick s) = activeRunIdRef s"
  "map_option run_id (activeRun (handleTick tick s)) = map_option run_id (activeRun s)"
  by (simp_all add: handleTick_def Let_def refreshRuns_def option.map_comp comp_def
      split: option.splits)

lemma runEffects_activeRunIdRef:
  "activeRunIdRef (runEffects old b s)
     = (if b then map_option run_id (activeRun s) else activeRunIdRef s)"
  by (simp add: runEffects_def modeEffect_def activeRunEffect_def Let_def split: option.splits)

lemma refsAgree_iff:
  "refsAgree s
     = ((reconnectTimerRef s = None
          \<or> activeRunIdRef s = map_option timer_run (reconnectTimerRef s))
        \<and> (activeRun s = None \<or> activeRunIdRef s = map_option run_id (activeRun s)))"
  by (simp add: refsAgree_def split: option.splits)

lemma refsAgree_onTick:
  assumes "refsAgree s"
  shows "refsAgree (onTick tick s)"
proof (cases "activeRun s")
  case None
  then have "activeRun (handleTick tick s) = None"
    using handleTick_refs(3) [of tick s] by simp
  with assms None show ?thesis
    by (simp add: refsAgree_iff onTick_def runEffects_refs runEffects_activeRunIdRef
        handleTick_refs)
next
  case (Some r)
  have m: "map_option run_id (activeRun (handleTick tick s)) = Some (run_id r)"
    using handleTick_refs(3) [of tick s] Some by simp
  then have ne: "activeRun (handleTick tick s) \<noteq> None" by auto
  from assms Some have a: "activeRunIdRef s = Some (run_id r)"
    and t: "reconnectTimerRef s = None
            \<or> Some (run_id r) = map_option timer_run (reconnectTimerRef s)"
    by (auto simp add: refsAgree_iff)
  from t show ?thesis
    by (simp add: refsAgree_iff onTick_def runEffects_refs runEffects_activeRunIdRef
        handleTick_refs(1,2) Some m)
qed

lemma refsAgree_scheduleReconnect:
  assumes "refsAgree s"
  shows "refsAgree (scheduleReconnect runId attempt s)"
proof (cases "shouldReconnect runId s")
  case False
  with assms show ?thesis
    by (simp add: scheduleReconnect_abandon refsAgree_iff)
next
  case True
  then have a: "activeRunIdRef s = Some runId" by (simp add: shouldReconnect_iff)
  show ?thesis
  proof (cases "attempt < 5")
    case True
    with \<open>shouldReconnect runId s\<close> assms a show ?thesis
      by (simp add: scheduleReconnect_retry refsAgree_iff)
  next
    case False
    with \<open>shouldReconnect runId s\<close> assms show ?thesis
      by (simp add: scheduleReconnect_exhausted refsAgree_iff)
  qed
qed

lemma refsAgree_step:
  assumes "refsAgree s"
  shows "refsAgree (step e s)"
proof (cases e)
  case (Tick t)
  with assms show ?thesis by (simp add: refsAgree_onTick)
next
  case (ModeChange m)
  with assms show ?thesis
    by (simp add: refsAgree_iff changeMode_def runEffects_refs runEffects_activeRunIdRef
        setMode_def)
next
  case (Seek i)
  with assms show ?thesis by (simp add: refsAgree_iff seek_def Let_def)
next
  case (RunSelected r d seed)
  then show ?thesis
    by (simp add: refsAgree_iff onRunSelected_timer onRunSelected_fields)
next
  case (RunSelectFailed m)
  with assms show ?thesis by (simp add: refsAgree_iff handleRunSelectFailed_def)
next
  case (SocketError r a)
  have "refsAgree (if a = 0
      then s\<lparr>toast := Some \<lparr>message = ''Run stream interrupted, reconnecting...'',
                            tone = Error\<rparr>\<rparr> else s)"
    using assms by (simp add: refsAgree_iff)
  with SocketError show ?thesis
    by (simp add: onError_def Let_def refsAgree_scheduleReconnect)
next
  case (SocketClose r a w)
  have n: "refsAgree (s\<lparr>socketRef := None\<rparr>)" using assms by (simp add: refsAgree_iff)
  have "refsAgree (refreshRuns (clearReconnectTimer (s\<lparr>socketRef := None\<rparr>)))"
    using assms by (simp add: refsAgree_iff refreshRuns_def clearReconnectTimer_def)
  with SocketClose n show ?thesis
    by (simp add: onClose_def Let_def refsAgree_scheduleReconnect)
next
  case TimerFired
  show ?thesis
  proof (cases "reconnectTimerRef s")
    case None
    with assms TimerFired show ?thesis by (simp add: fireTimer_def)
  next
    case (Some t)
    with assms have a: "activeRunIdRef s = Some (timer_run t)" by (simp add: refsAgree_iff)
    have c: "reconnectTimerRef (connect r k s) = None"
        "activeRunIdRef (connect r k s) = Some r"
        "activeRun (connect r k s) = activeRun s" for r k
      by (simp_all add: connect_def closeSocket_def clearReconnectTimer_def Let_def
          split: option.splits)
    from assms a Some TimerFired show ?thesis
      by (simp add: refsAgree_iff fireTimer_def c)
  qed
next
  case (RunsLoaded l)
  with assms show ?thesis by (simp add: refsAgree_iff runsLoaded_def)
next
  case (ScenariosLoaded l)
  with assms show ?thesis by (simp add: refsAgree_iff scenariosLoaded_def)
next
  case (ScenarioPicked l)
  with assms show ?thesis by (simp add: refsAgree_iff selectScenario_def)
qed

lemma refsAgree_reachable: "refsAgree (run events initial)"
proof -
  have "refsAgree s \<Longrightarrow> refsAgree (run events s)" for s
    unfolding run_def by (induction events arbitrary: s) (simp_all add: refsAgree_step)
  moreover have "refsAgree initial" by (simp add: refsAgree_iff initial_def)
  ultimately show ?thesis .
qed

lemma runEffects_runStageRef:
  "runStageRef (runEffects old b s)
     = (if b then map_option run_stage (activeRun s) else runStageRef s)"
  by (simp add: runEffects_def modeEffect_def activeRunEffect_def Let_def split: option.splits)

lemma handleRunSelect_refreshes:
  "refreshRunsCalls (handleRunSelect runId detail seed s) = refreshRunsCalls s"
  by (simp add: handleRunSelect_def Let_def attachRunStream_def connect_def closeSocket_def
      clearReconnectTimer_def split: option.splits)

lemma onRunSelected_more:
  "runStageRef (onRunSelected runId detail seed s) = Some (run_stage detail)"
  "refreshRunsCalls (onRunSelected runId detail seed s) = refreshRunsCalls s"
  by (simp_all add: onRunSelected_def runEffects_runStageRef runEffects_refs
      handleRunSelect_fields handleRunSelect_refreshes)

lemma handleTick_stage:
  "runStageRef (handleTick tick s) = Some (stage tick)"
  "map_option run_stage (activeRun (handleTick tick s))
     = map_option (\<lambda>r. stage tick) (activeRun s)"
  by (simp_all add: handleTick_def Let_def refreshRuns_def option.map_comp comp_def
      split: option.splits)

lemma runStageRef_onTick: "runStageRef (onTick tick s) = Some (stage tick)"
proof (cases "activeRun s")
  case None
  then show ?thesis by (simp add: onTick_def runEffects_runStageRef handleTick_stage)
next
  case (Some r)
  then show ?thesis
    using handleTick_stage(2) [of tick s]
    by (simp add: onTick_def runEffects_runStageRef)
qed

lemma activeRunIdRef_onTick:
  assumes "activeRun s = Some r"
  shows "activeRunIdRef (onTick tick s) = Some (run_id r)"
proof -
  have m: "map_option run_id (activeRun (handleTick tick s)) = Some (run_id r)"
    using handleTick_refs(3) [of tick s] assms by simp
  then have "activeRun (handleTick tick s) \<noteq> None" by auto
  with m assms show ?thesis
    by (simp add: onTick_def runEffects_activeRunIdRef)
qed

lemma onError_activeRunIdRef: "activeRunIdRef (onError runId attempt s) = activeRunIdRef s"
  by (simp add: onError_def scheduleReconnect_def clearReconnectTimer_def refreshRuns_def
      Let_def)

lemma liveState_refs:
  "activeRunIdRef liveState = Some ''run-1''"
  "runStageRef liveState = Some RUNNING"
  "reconnectTimerRef liveState = None"
  "opened liveState = [\<lparr>sock_run = ''run-1'', sock_attempt = 0\<rparr>]"
  "refreshRunsCalls liveState = 0"
  "activeRun liveState = Some sampleDetail"
proof -
  have d: "run_id sampleDetail = ''run-1''" "run_stage sampleDetail = RUNNING"
    by (simp_all add: sampleDetail_def)
  have i: "opened initial = []" "refreshRunsCalls initial = 0"
    by (simp_all add: initial_def)
  show "activeRunIdRef liveState = Some ''run-1''"
    and "runStageRef liveState = Some RUNNING"
    and "reconnectTimerRef liveState = None"
    and "opened liveState = [\<lparr>sock_run = ''run-1'', sock_attempt = 0\<rparr>]"
    and "refreshRunsCalls liveState = 0"
    and "activeRun liveState = Some sampleDetail"
    by (simp_all add: liveState_def onRunSelected_fields onRunSelected_more
        onRunSelected_timer d i isLiveStage_def)
qed

lemma liveState_shouldReconnect: "shouldReconnect ''run-1'' liveState"
  by (simp add: shouldReconnect_iff liveState_refs)

lemma switchedState_refs:
  "activeRunIdRef switchedState = Some ''run-2''"
  "reconnectTimerRef switchedState = None"
  by (simp_all add: switchedState_def onRunSelected_fields onRunSelected_timer
      completedDetail_def)

lemma terminal_refs:
  "activeRunIdRef (onTick completedTick liveState) = Some ''run-1''"
  "runStageRef (onTick completedTick liveState) = Some COMPLETED"
  using activeRunIdRef_onTick [OF liveState_refs(6), of completedTick]
  by (simp_all add: runStageRef_onTick completedTick_def sampleDetail_def)

lemma connect_opened:
  "opened (connect runId attempt s) = opened s @ [\<lparr>sock_run = runId, sock_attempt = attempt\<rparr>]"
  by (simp add: connect_def closeSocket_def clearReconnectTimer_def Let_def split: option.splits)

lemma onError_retry:
  assumes "shouldReconnect runId s" and "attempt < 5"
  shows "reconnectTimerRef (onError runId attempt s)
           = Some \<lparr>timer_run = runId, timer_attempt = attempt + 1,
                   timer_delay = min (attempt + 1) 5 * 1000\<rparr>"
    and "refreshRunsCalls (onError runId attempt s) = refreshRunsCalls s"
    and "opened (fireTimer (onError runId attempt s))
           = opened s @ [\<lparr>sock_run = runId, sock_attempt = attempt + 1\<rparr>]"
proof -
  let ?s1 = "if attempt = 0
             then s\<lparr>toast := Some \<lparr>message = ''Run stream interrupted, reconnecting...'',
                                   tone = Error\<rparr>\<rparr>
             else s"
  have "shouldReconnect runId ?s1 = shouldReconnect runId s"
    by (rule shouldReconnect_cong) simp_all
  with assms have y: "shouldReconnect runId ?s1" by simp
  have e: "onError runId attempt s = scheduleReconnect runId attempt ?s1"
    by (simp add: onError_def Let_def)
  show t: "reconnectTimerRef (onError runId attempt s)
           = Some \<lparr>timer_run = runId, timer_attempt = attempt + 1,
                   timer_delay = min (attempt + 1) 5 * 1000\<rparr>"
    unfolding e scheduleReconnect_retry [OF y assms(2)] by (simp add: min.commute)
  show "refreshRunsCalls (onError runId attempt s) = refreshRunsCalls s"
    unfolding e scheduleReconnect_retry [OF y assms(2)] by simp
  have "opened (onError runId attempt s) = opened s"
    unfolding e scheduleReconnect_retry [OF y assms(2)] by simp
  with t show "opened (fireTimer (onError runId attempt s))
           = opened s @ [\<lparr>sock_run = runId, sock_attempt = attempt + 1\<rparr>]"
    by (simp add: fireTimer_def connect_opened)
qed

lemma pendingState_refs:
  "reconnectTimerRef pendingState
     = Some \<lparr>timer_run = ''run-1'', timer_attempt = 1, timer_delay = 1000\<rparr>"
  "activeRunIdRef pendingState = Some ''run-1''"
  using onError_retry(1) [OF liveState_shouldReconnect, of 0]
  by (simp_all add: pendingState_def onError_activeRunIdRef liveState_refs)

lemma onError_exhausted:
  assumes "shouldReconnect runId s" and "5 \<le> attempt"
  shows "reconnectTimerRef (onError runId attempt s) = None"
    and "toast (onError runId attempt s) = Some lostToast"
    and "refreshRunsCalls (onError runId attempt s) = Suc (refreshRunsCalls s)"
    and "opened (fireTimer (onError runId attempt s)) = opened s"
proof -
  from assms(2) have e: "onError runId attempt s = scheduleReconnect runId attempt s"
    by (simp add: onError_def Let_def)
  show t: "reconnectTimerRef (onError runId attempt s) = None"
    and "toast (onError runId attempt s) = Some lostToast"
    and "refreshRunsCalls (onError runId attempt s) = Suc (refreshRunsCalls s)"
    unfolding e scheduleReconnect_exhausted [OF assms] by simp_all
  have "opened (onError runId attempt s) = opened s"
    unfolding e scheduleReconnect_exhausted [OF assms] by simp
  with t show "opened (fireTimer (onError runId attempt s)) = opened s"
    by (simp add: fireTimer_def)
qed

lemma onClose_unclean:
  assumes "shouldReconnect runId s"
  shows "onClose runId attempt False s = scheduleReconnect runId attempt (s\<lparr>socketRef := None\<rparr>)"
    and "shouldReconnect runId (s\<lparr>socketRef := None\<rparr>)"
proof -
  have c: "shouldReconnect runId (s\<lparr>socketRef := None\<rparr>) = shouldReconnect runId s"
    by (rule shouldReconnect_cong) simp_all
  with assms show "shouldReconnect runId (s\<lparr>socketRef := None\<rparr>)" by simp
  with assms show "onClose runId attempt False s
      = scheduleReconnect runId attempt (s\<lparr>socketRef := None\<rparr>)"
    by (simp add: onClose_def Let_def)
qed

lemma onClose_retry:
  assumes "shouldReconnect runId s" and "attempt < 5"
  shows "reconnectTimerRef (onClose runId attempt False s)
           = Some \<lparr>timer_run = runId, timer_attempt = attempt + 1,
                   timer_delay = min (attempt + 1) 5 * 1000\<rparr>"
    and "refreshRunsCalls (onClose runId attempt False s) = refreshRunsCalls s"
    and "opened (fireTimer (onClose runId attempt False s))
           = opened s @ [\<lparr>sock_run = runId, sock_attempt = attempt + 1\<rparr>]"
proof -
  note e = onClose_unclean(1) [OF assms(1), of attempt]
  note y = onClose_unclean(2) [OF assms(1)]
  show t: "reconnectTimerRef (onClose runId attempt False s)
           = Some \<lparr>timer_run = runId, timer_attempt = attempt + 1,
                   timer_delay = min (attempt + 1) 5 * 1000\<rparr>"
    unfolding e scheduleReconnect_retry [OF y assms(2)] by (simp add: min.commute)
  show "refreshRunsCalls (onClose runId attempt False s) = refreshRunsCalls s"
    unfolding e scheduleReconnect_retry [OF y assms(2)] by simp
  have "opened (onClose runId attempt False s) = opened s"
    unfolding e scheduleReconnect_retry [OF y assms(2)] by simp
  with t show "opened (fireTimer (onClose runId attempt False s))
           = opened s @ [\<lparr>sock_run = runId, sock_attempt = attempt + 1\<rparr>]"
    by (simp add: fireTimer_def connect_opened)
qed

lemma onClose_exhausted:
  assumes "shouldReconnect runId s" and "5 \<le> attempt"
  shows "reconnectTimerRef (onClose runId attempt False s) = None"
    and "toast (onClose runId attempt False s) = Some lostToast"
    and "refreshRunsCalls (onClose runId attempt False s) = Suc (refreshRunsCalls s)"
    and "opened (fireTimer (onClose runId attempt False s)) = opened s"
proof -
  note e = onClose_unclean(1) [OF assms(1), of attempt]
  note y = onClose_unclean(2) [OF assms(1)]
  show t: "reconnectTimerRef (onClose runId attempt False s) = None"
    and "toast (onClose runId attempt False s) = Some lostToast"
    and "refreshRunsCalls (onClose runId attempt False s) = Suc (refreshRunsCalls s)"
    unfolding e scheduleReconnect_exhausted [OF y assms(2)] by simp_all
  have "opened (onClose runId attempt False s) = opened s"
    unfolding e scheduleReconnect_exhausted [OF y assms(2)] by simp
  with t show "opened (fireTimer (onClose runId attempt False s)) = opened s"
    by (simp add: fireTimer_def)
qed

lemma timer_of_active_run:
  assumes "reconnectTimerRef (run events initial) = Some t"
  shows "activeRunIdRef (run events initial) = Some (timer_run t)"
  using refsAgree_reachable [of events] assms by (simp add: refsAgree_def)

text \<open>
  Claim C2. After an error or an unclean close of the socket of a run, a timer is pending
  only if the reference to the active run still names that run and the last known stage is
  null, WARMING_UP or RUNNING. If one of the two fails, whatever timer was pending before,
  no timer is pending afterwards, no socket is opened then or when timers fire, and
  \<^verbatim>\<open>refreshRuns\<close> has been called once more. Selecting a run cancels the pending timer; and in
  every reachable state a pending timer belongs to the run that the reference names.
\<close>

theorem reconnect_only_for_active_live_run:
  "shouldReconnect runId s
     = (activeRunIdRef s = Some runId
        \<and> (runStageRef s = None \<or> runStageRef s = Some WARMING_UP \<or> runStageRef s = Some RUNNING))
   \<and> (reconnectTimerRef (onError runId attempt s) \<noteq> None \<longrightarrow> shouldReconnect runId s)
   \<and> (reconnectTimerRef (onClose runId attempt False s) \<noteq> None \<longrightarrow> shouldReconnect runId s)
   \<and> (\<not> shouldReconnect runId s \<longrightarrow>
        reconnectTimerRef (onError runId attempt s) = None
      \<and> opened (onError runId attempt s) = opened s
      \<and> refreshRunsCalls (onError runId attempt s) = Suc (refreshRunsCalls s)
      \<and> fireTimer (onError runId attempt s) = onError runId attempt s
      \<and> reconnectTimerRef (onClose runId attempt False s) = None
      \<and> opened (onClose runId attempt False s) = opened s
      \<and> refreshRunsCalls (onClose runId attempt False s) = Suc (refreshRunsCalls s)
      \<and> fireTimer (onClose runId attempt False s) = onClose runId attempt False s)
   \<and> reconnectTimerRef (onRunSelected other detail seed s) = None
   \<and> fireTimer (onRunSelected other detail seed s) = onRunSelected other detail seed s
   \<and> (reconnectTimerRef (run events initial) \<noteq> None \<longrightarrow>
        map_option timer_run (reconnectTimerRef (run events initial))
          = activeRunIdRef (run events initial))"
proof -
  have a: "reconnectTimerRef (onError runId attempt s) \<noteq> None \<longrightarrow> shouldReconnect runId s"
    using onError_timer [of runId attempt s] by blast
  have b: "reconnectTimerRef (onClose runId attempt False s) \<noteq> None \<longrightarrow> shouldReconnect runId s"
    using onClose_timer [of runId attempt False s] by blast
  have c: "\<not> shouldReconnect runId s \<longrightarrow>
        reconnectTimerRef (onError runId attempt s) = None
      \<and> opened (onError runId attempt s) = opened s
      \<and> refreshRunsCalls (onError runId attempt s) = Suc (refreshRunsCalls s)
      \<and> fireTimer (onError runId attempt s) = onError runId attempt s
      \<and> reconnectTimerRef (onClose runId attempt False s) = None
      \<and> opened (onClose runId attempt False s) = opened s
      \<and> refreshRunsCalls (onClose runId attempt False s) = Suc (refreshRunsCalls s)
      \<and> fireTimer (onClose runId attempt False s) = onClose runId attempt False s"
    using onError_abandon [of runId s attempt] onClose_abandon [of False runId s attempt]
    by simp
  have d: "reconnectTimerRef (run events initial) \<noteq> None \<longrightarrow>
        map_option timer_run (reconnectTimerRef (run events initial))
          = activeRunIdRef (run events initial)"
    using timer_of_active_run [of events] by auto
  note e = shouldReconnect_iff [of runId s]
  note f = onRunSelected_timer(1,3) [of other detail seed s]
  from e a b c d f show ?thesis by blast
qed

theorem reconnect_only_for_active_live_run_witness:
  "shouldReconnect ''run-1'' liveState
   \<and> reconnectTimerRef (onError ''run-1'' 0 liveState) \<noteq> None
   \<and> \<not> shouldReconnect ''run-1'' (onTick completedTick liveState)
   \<and> reconnectTimerRef (onError ''run-1'' 0 (onTick completedTick liveState)) = None
   \<and> refreshRunsCalls (onError ''run-1'' 0 (onTick completedTick liveState))
       = Suc (refreshRunsCalls (onTick completedTick liveState))
   \<and> reconnectTimerRef pendingState \<noteq> None
   \<and> reconnectTimerRef switchedState = None
   \<and> \<not> shouldReconnect ''run-1'' switchedState
   \<and> reconnectTimerRef (onClose ''run-1'' 0 False switchedState) = None
   \<and> opened (onClose ''run-1'' 0 False switchedState) = opened switchedState
   \<and> refreshRunsCalls (onClose ''run-1'' 0 False switchedState)
       = Suc (refreshRunsCalls switchedState)
   \<and> reconnectTimerRef (run [RunSelected ''run-1'' sampleDetail [], SocketError ''run-1'' 0]
        initial) \<noteq> None
   \<and> activeRunIdRef (run [RunSelected ''run-1'' sampleDetail [], SocketError ''run-1'' 0]
        initial) = Some ''run-1''"
proof -
  have r: "run [RunSelected ''run-1'' sampleDetail [], SocketError ''run-1'' 0] initial
             = pendingState"
    by (simp add: run_Cons run_Nil pendingState_def liveState_def)
  have n1: "\<not> shouldReconnect ''run-1'' (onTick completedTick liveState)"
    by (simp add: shouldReconnect_iff terminal_refs)
  have n2: "\<not> shouldReconnect ''run-1'' switchedState"
    by (simp add: shouldReconnect_iff switchedState_refs)
  have p: "reconnectTimerRef (onError ''run-1'' 0 liveState) \<noteq> None"
    using pendingState_refs by (simp add: pendingState_def)
  from reconnect_only_for_active_live_run [of "''run-1''" "onTick completedTick liveState" 0
      "''run-2''" completedDetail "[]" "[]"]
    reconnect_only_for_active_live_run [of "''run-1''" switchedState 0
      "''run-2''" completedDetail "[]"
      "[RunSelected ''run-1'' sampleDetail [], SocketError ''run-1'' 0]"]
    n1 n2 p liveState_shouldReconnect
  show ?thesis
    by (simp add: r pendingState_refs switchedState_refs)
qed

text \<open>
  Claim C6, as stated, fails: after the five connections numbered 0 to 4 of a running run
  have failed, a timer of 5000 ms for the connection numbered 5 is pending, no terminal
  notice has been raised and \<^verbatim>\<open>refreshRuns\<close> has not been called; when the timer fires the
  sixth socket is opened.
\<close>

theorem five_failures_counterexample:
  "reconnectTimerRef (failedAttempts ''run-1'' 5 liveState)
      = Some \<lparr>timer_run = ''run-1'', timer_attempt = 5, timer_delay = 5000\<rparr>
   \<and> toast (failedAttempts ''run-1'' 5 liveState) \<noteq> Some lostToast
   \<and> refreshRunsCalls (failedAttempts ''run-1'' 5 liveState) = 0
   \<and> opened (fireTimer (failedAttempts ''run-1'' 5 liveState))
       = [\<lparr>sock_run = ''run-1'', sock_attempt = 0\<rparr>, \<lparr>sock_run = ''run-1'', sock_attempt = 1\<rparr>,
          \<lparr>sock_run = ''run-1'', sock_attempt = 2\<rparr>, \<lparr>sock_run = ''run-1'', sock_attempt = 3\<rparr>,
          \<lparr>sock_run = ''run-1'', sock_attempt = 4\<rparr>, \<lparr>sock_run = ''run-1'', sock_attempt = 5\<rparr>]"
  by code_simp

text \<open>
  Claim C6, amended. While the run is still the active one and not terminal, a failure
  (error or unclean close) of the connection numbered \<open>n\<close>, for \<open>n\<close> from 0 to 4, sets a timer
  of \<open>min (n + 1) 5\<close> seconds that opens the connection numbered \<open>n + 1\<close>, and calls no refresh;
  a failure of the connection numbered 5 or more (the sixth connection: the first one and
  five retries) sets no timer, raises the notice "Run stream lost connection", calls
  \<^verbatim>\<open>refreshRuns\<close> once and opens no further socket.
\<close>

theorem reconnect_backoff:
  "shouldReconnect runId s \<longrightarrow>
     (attempt < 5 \<longrightarrow>
        reconnectTimerRef (onError runId attempt s)
          = Some \<lparr>timer_run = runId, timer_attempt = attempt + 1,
                  timer_delay = min (attempt + 1) 5 * 1000\<rparr>
      \<and> refreshRunsCalls (onError runId attempt s) = refreshRunsCalls s
      \<and> opened (fireTimer (onError runId attempt s))
          = opened s @ [\<lparr>sock_run = runId, sock_attempt = attempt + 1\<rparr>]
      \<and> reconnectTimerRef (onClose runId attempt False s)
          = Some \<lparr>timer_run = runId, timer_attempt = attempt + 1,
                  timer_delay = min (attempt + 1) 5 * 1000\<rparr>
      \<and> refreshRunsCalls (onClose runId attempt False s) = refreshRunsCalls s
      \<and> opened (fireTimer (onClose runId attempt False s))
          = opened s @ [\<lparr>sock_run = runId, sock_attempt = attempt + 1\<rparr>])
   \<and> (5 \<le> attempt \<longrightarrow>
        reconnectTimerRef (onError runId attempt s) = None
      \<and> toast (onError runId attempt s) = Some lostToast
      \<and> refreshRunsCalls (onError runId attempt s) = Suc (refreshRunsCalls s)
      \<and> opened (fireTimer (onError runId attempt s)) = opened s
      \<and> reconnectTimerRef (onClose runId attempt False s) = None
      \<and> toast (onClose runId attempt False s) = Some lostToast
      \<and> refreshRunsCalls (onClose runId attempt False s) = Suc (refreshRunsCalls s)
      \<and> opened (fireTimer (onClose runId attempt False s)) = opened s)"
  using onError_retry [of runId s attempt] onClose_retry [of runId s attempt]
    onError_exhausted [of runId s attempt] onClose_exhausted [of runId s attempt]
  by simp

theorem reconnect_backoff_witness:
  "shouldReconnect ''run-1'' liveState
   \<and> reconnectTimerRef (onError ''run-1'' 0 liveState)
       = Some \<lparr>timer_run = ''run-1'', timer_attempt = 1, timer_delay = 1000\<rparr>
   \<and> reconnectTimerRef (onError ''run-1'' 4 liveState)
       = Some \<lparr>timer_run = ''run-1'', timer_attempt = 5, timer_delay = 5000\<rparr>
   \<and> opened (fireTimer (onError ''run-1'' 4 liveState))
       = [\<lparr>sock_run = ''run-1'', sock_attempt = 0\<rparr>, \<lparr>sock_run = ''run-1'', sock_attempt = 5\<rparr>]
   \<and> reconnectTimerRef (onError ''run-1'' 5 liveState) = None
   \<and> toast (onError ''run-1'' 5 liveState) = Some lostToast
   \<and> refreshRunsCalls (onError ''run-1'' 5 liveState) = 1
   \<and> opened (fireTimer (onError ''run-1'' 5 liveState))
       = [\<lparr>sock_run = ''run-1'', sock_attempt = 0\<rparr>]"
  using reconnect_backoff [of "''run-1''" liveState 0]
    reconnect_backoff [of "''run-1''" liveState 4]
    reconnect_backoff [of "''run-1''" liveState 5]
    liveState_shouldReconnect
  by (simp add: liveState_refs)

subsection \<open>The active tick and the canvas\<close>

lemma queuedView_fields:
  "tickHistory queuedView = []"
  "activeRun queuedView = Some queuedDetail"
  "selectedScenario queuedView = Some scenarioB"
  "scenarios queuedView = [scenarioA, scenarioB]"
  "showHeatmap queuedView = True"
  by (code_simp)+

lemma fallbackLayout_eq:
  "fallbackLayout s = map_option (\<lambda>scenario. config_layout (config scenario)) (activeScenario s)"
  by (simp add: fallbackLayout_def Let_def split: option.splits)

lemma activeTick_cases:
  "tickHistory s = [] \<Longrightarrow> activeTick s = None"
  "tickHistory s \<noteq> [] \<Longrightarrow> mode s = Replay \<Longrightarrow> cursor s < length (tickHistory s)
     \<Longrightarrow> activeTick s = Some (tickHistory s ! cursor s)"
  "tickHistory s \<noteq> [] \<Longrightarrow> mode s = Replay \<Longrightarrow> length (tickHistory s) \<le> cursor s
     \<Longrightarrow> activeTick s = Some (last (tickHistory s))"
  "tickHistory s \<noteq> [] \<Longrightarrow> mode s = Live \<Longrightarrow> activeTick s = Some (last (tickHistory s))"
  by (simp_all add: activeTick_def last_conv_nth)

lemma activeTick_live_reachable:
  assumes "tickHistory (run events initial) \<noteq> []" and "mode (run events initial) = Live"
  shows "activeTick (run events initial)
           = Some (tickHistory (run events initial) ! cursor (run events initial))"
  using liveInvariant_reachable [of events] assms
  by (simp add: liveInvariant_def activeTick_def)

lemma canvasProps_tick:
  assumes "activeTick s = Some tick" and "activeRun s = Some r"
  shows "canvasProps s = Some
           \<lparr>prop_layout = Some (layout (state tick)), prop_packages = packages (state tick),
            prop_robots = robots (state tick), prop_reservations = reservations (state tick),
            prop_heatmap = (if showHeatmap s then Some (heatmap tick) else None),
            prop_showHeatmap = showHeatmap s, prop_metrics = Some (metrics tick)\<rparr>"
  using assms
  by (simp add: canvasProps_def currentState_def currentHeatmap_def currentMetrics_def)

lemma canvasProps_run_state:
  assumes "tickHistory s = []" and "activeRun s = Some r" and "run_state r = Some st"
  shows "canvasProps s = Some
           \<lparr>prop_layout = Some (layout st), prop_packages = packages st,
            prop_robots = robots st, prop_reservations = reservations st,
            prop_heatmap = (if showHeatmap s then Some (run_heatmap r) else None),
            prop_showHeatmap = showHeatmap s, prop_metrics = Some (run_metrics r)\<rparr>"
  using assms
  by (simp add: canvasProps_def currentState_def currentHeatmap_def currentMetrics_def
      activeTick_cases(1))

lemma canvasProps_scenario:
  assumes "tickHistory s = []" and "activeRun s = Some r" and "run_state r = None"
  shows "canvasProps s = Some
           \<lparr>prop_layout = map_option (\<lambda>scenario. config_layout (config scenario))
                           (case find (\<lambda>item. scn_id item = scenario_id r) (scenarios s) of
                              Some match \<Rightarrow> Some match
                            | None \<Rightarrow> selectedScenario s),
            prop_packages = [], prop_robots = [], prop_reservations = [],
            prop_heatmap = (if showHeatmap s then Some (run_heatmap r) else None),
            prop_showHeatmap = showHeatmap s, prop_metrics = Some (run_metrics r)\<rparr>"
  using assms
  by (simp add: canvasProps_def currentState_def currentHeatmap_def currentMetrics_def
      activeTick_cases(1) fallbackLayout_eq activeScenario_def)

text \<open>
  Claim C5, as stated, fails twice. In the render that follows "Go live" the mode is live and
  the cursor still holds 0, a valid index, yet the active tick is the newest tick and not the
  element at the cursor. And with an empty history and a run without state, the layout handed
  to the canvas is the layout of the scenario of the active run, not the layout of the
  selected scenario.
\<close>

theorem active_tick_counterexample:
  "mode goLiveRender = Live
   \<and> cursor goLiveRender < length (tickHistory goLiveRender)
   \<and> activeTick goLiveRender \<noteq> Some (tickHistory goLiveRender ! cursor goLiveRender)
   \<and> tickHistory queuedView = []
   \<and> map_option run_state (activeRun queuedView) = Some None
   \<and> map_option prop_layout (canvasProps queuedView) = Some (Some sampleLayout)
   \<and> selectedScenario queuedView = Some scenarioB
   \<and> config_layout (config scenarioB) = otherLayout
   \<and> sampleLayout \<noteq> otherLayout"
proof -
  have g: "mode goLiveRender = Live" "cursor goLiveRender = 0"
    "tickHistory goLiveRender = seedTick sampleDetail @ [sampleTick 1]"
    by (simp_all add: goLiveRender_def setMode_def scrubbedState_fields)
  have l: "seedTick sampleDetail
     = [\<lparr>stage = RUNNING, elapsed_seconds = 0, state = sampleState, metrics = sampleMetrics,
         heatmap = [], recent_events = []\<rparr>]"
    by (simp add: seedTick_def sampleDetail_def)
  have a: "activeTick goLiveRender = Some (sampleTick 1)"
    using activeTick_cases(4) [of goLiveRender] by (simp add: g)
  have n: "sampleTick 1 \<noteq> tickHistory goLiveRender ! 0"
    by (simp add: g l sampleTick_def)
  have q: "run_state queuedDetail = None" "scenario_id queuedDetail = ''scn-1''"
    by (simp_all add: queuedDetail_def)
  have c: "map_option prop_layout (canvasProps queuedView) = Some (Some sampleLayout)"
    using canvasProps_scenario [OF queuedView_fields(1,2) q(1)]
    by (simp add: queuedView_fields q scenarioA_def)
  have d: "sampleLayout \<noteq> otherLayout" by (simp add: sampleLayout_def otherLayout_def)
  from a n c d show ?thesis
    by (simp add: g l queuedView_fields q scenarioB_def)
qed

text \<open>
  Claim C5, amended. With a non-empty history, in replay mode the active tick is the element
  at the cursor, or the last element when the cursor is past the end; in live mode it is the
  last element whatever the cursor holds, which in every reachable state (the effects having
  run) is the element at the cursor. The canvas takes layout, packages, robots, reservations,
  heatmap and metrics from the active tick; with an empty history from the state, heatmap and
  metrics of the active run; and when that run has no state, the layout of the listed
  scenario whose id is the scenario id of the run, or of the selected scenario when none is
  listed, with no packages, robots or reservations.
\<close>

theorem active_tick_and_fallbacks:
  "(tickHistory s = [] \<longrightarrow> activeTick s = None)
   \<and> (tickHistory s \<noteq> [] \<and> mode s = Replay \<and> cursor s < length (tickHistory s) \<longrightarrow>
        activeTick s = Some (tickHistory s ! cursor s))
   \<and> (tickHistory s \<noteq> [] \<and> mode s = Replay \<and> length (tickHistory s) \<le> cursor s \<longrightarrow>
        activeTick s = Some (last (tickHistory s)))
   \<and> (tickHistory s \<noteq> [] \<and> mode s = Live \<longrightarrow> activeTick s = Some (last (tickHistory s)))
   \<and> (tickHistory (run events initial) \<noteq> [] \<and> mode (run events initial) = Live \<longrightarrow>
        activeTick (run events initial)
          = Some (tickHistory (run events initial) ! cursor (run events initial)))
   \<and> (activeTick s = Some tick \<and> activeRun s = Some r \<longrightarrow>
        canvasProps s = Some
           \<lparr>prop_layout = Some (layout (state tick)), prop_packages = packages (state tick),
            prop_robots = robots (state tick), prop_reservations = reservations (state tick),
            prop_heatmap = (if showHeatmap s then Some (heatmap tick) else None),
            prop_showHeatmap = showHeatmap s, prop_metrics = Some (metrics tick)\<rparr>)
   \<and> (tickHistory s = [] \<and> activeRun s = Some r \<and> run_state r = Some st \<longrightarrow>
        canvasProps s = Some
           \<lparr>prop_layout = Some (layout st), prop_packages = packages st,
            prop_robots = robots st, prop_reservations = reservations st,
            prop_heatmap = (if showHeatmap s then Some (run_heatmap r) else None),
            prop_showHeatmap = showHeatmap s, prop_metrics = Some (run_metrics r)\<rparr>)
   \<and> (tickHistory s = [] \<and> activeRun s = Some r \<and> run_state r = None \<longrightarrow>
        canvasProps s = Some
           \<lparr>prop_layout = map_option (\<lambda>scenario. config_layout (config scenario))
                           (case find (\<lambda>item. scn_id item = scenario_id r) (scenarios s) of
                              Some match \<Rightarrow> Some match
                            | None \<Rightarrow> selectedScenario s),
            prop_packages = [], prop_robots = [], prop_reservations = [],
            prop_heatmap = (if showHeatmap s then Some (run_heatmap r) else None),
            prop_showHeatmap = showHeatmap s, prop_metrics = Some (run_metrics r)\<rparr>)"
  using activeTick_cases [of s] activeTick_live_reachable [of events]
    canvasProps_tick [of s tick r] canvasProps_run_state [of s r st]
    canvasProps_scenario [of s r]
  by blast

theorem active_tick_and_fallbacks_witness:
  "tickHistory (run replayTrace initial) \<noteq> [] \<and> mode (run replayTrace initial) = Replay
   \<and> cursor (run replayTrace initial) < length (tickHistory (run replayTrace initial))
   \<and> activeTick (run replayTrace initial) = Some (sampleTick 10)
   \<and> mode (scrubbedState\<lparr>cursor := 7\<rparr>) = Replay
   \<and> length (tickHistory (scrubbedState\<lparr>cursor := 7\<rparr>)) \<le> cursor (scrubbedState\<lparr>cursor := 7\<rparr>)
   \<and> activeTick (scrubbedState\<lparr>cursor := 7\<rparr>) = Some (sampleTick 1)
   \<and> mode goLiveRender = Live \<and> activeTick goLiveRender = Some (sampleTick 1)
   \<and> tickHistory (initial\<lparr>activeRun := Some completedDetail\<rparr>) = []
   \<and> run_state completedDetail = Some sampleState
   \<and> map_option prop_robots (canvasProps (initial\<lparr>activeRun := Some completedDetail\<rparr>))
       = Some [sampleRobot]
   \<and> tickHistory queuedView = [] \<and> activeRun queuedView = Some queuedDetail
   \<and> run_state queuedDetail = None
   \<and> canvasProps queuedView = Some
         \<lparr>prop_layout = Some sampleLayout, prop_packages = [], prop_robots = [],
          prop_reservations = [], prop_heatmap = Some [], prop_showHeatmap = True,
          prop_metrics = Some sampleMetrics\<rparr>"
proof -
  have l: "seedTick sampleDetail
     = [\<lparr>stage = RUNNING, elapsed_seconds = 0, state = sampleState, metrics = sampleMetrics,
         heatmap = [], recent_events = []\<rparr>]"
    by (simp add: seedTick_def sampleDetail_def)
  have r: "mode (run replayTrace initial) = Replay" "cursor (run replayTrace initial) = 10"
    "length (tickHistory (run replayTrace initial)) = 50"
    "tickHistory (run replayTrace initial) ! 10 = sampleTick 10"
    using replayTrace_state by (simp_all add: l nth_append)
  then have r0: "tickHistory (run replayTrace initial) \<noteq> []" by auto
  have o: "mode (scrubbedState\<lparr>cursor := 7\<rparr>) = Replay"
    "cursor (scrubbedState\<lparr>cursor := 7\<rparr>) = 7"
    "tickHistory (scrubbedState\<lparr>cursor := 7\<rparr>) = seedTick sampleDetail @ [sampleTick 1]"
    by (simp_all add: scrubbedState_fields)
  have g: "mode goLiveRender = Live"
    "tickHistory goLiveRender = seedTick sampleDetail @ [sampleTick 1]"
    by (simp_all add: goLiveRender_def setMode_def scrubbedState_fields)
  have c: "tickHistory (initial\<lparr>activeRun := Some completedDetail\<rparr>) = []"
    "activeRun (initial\<lparr>activeRun := Some completedDetail\<rparr>) = Some completedDetail"
    "run_state completedDetail = Some sampleState"
    by (simp_all add: initial_def completedDetail_def)
  have q: "run_state queuedDetail = None" "scenario_id queuedDetail = ''scn-1''"
    "run_heatmap queuedDetail = []" "run_metrics queuedDetail = sampleMetrics"
    by (simp_all add: queuedDetail_def)
  from active_tick_and_fallbacks [of "run replayTrace initial" "[]" "sampleTick 0" sampleDetail
      sampleState] r r0
  have 1: "activeTick (run replayTrace initial) = Some (sampleTick 10)" by simp
  from active_tick_and_fallbacks [of "scrubbedState\<lparr>cursor := 7\<rparr>" "[]" "sampleTick 0"
      sampleDetail sampleState] o
  have 2: "activeTick (scrubbedState\<lparr>cursor := 7\<rparr>) = Some (sampleTick 1)" by (simp add: l)
  from active_tick_and_fallbacks [of goLiveRender "[]" "sampleTick 0" sampleDetail sampleState] g
  have 3: "activeTick goLiveRender = Some (sampleTick 1)" by (simp add: l)
  from active_tick_and_fallbacks [of "initial\<lparr>activeRun := Some completedDetail\<rparr>" "[]"
      "sampleTick 0" completedDetail sampleState] c
  have 4: "map_option prop_robots (canvasProps (initial\<lparr>activeRun := Some completedDetail\<rparr>))
       = Some [sampleRobot]"
    by (simp add: sampleState_def)
  from active_tick_and_fallbacks [of queuedView "[]" "sampleTick 0" queuedDetail sampleState]
  have 5: "canvasProps queuedView = Some
         \<lparr>prop_layout = Some sampleLayout, prop_packages = [], prop_robots = [],
          prop_reservations = [], prop_heatmap = Some [], prop_showHeatmap = True,
          prop_metrics = Some sampleMetrics\<rparr>"
    by (simp add: queuedView_fields q scenarioA_def)
  from 1 2 3 4 5 r r0 o g c q queuedView_fields show ?thesis by (simp add: l)
qed

subsection \<open>The auto-select effect\<close>

lemma find_sorted_first:
  assumes "sorted (map f xs)" and "find P xs = Some p"
  shows "p \<in> set xs \<and> P p \<and> (\<forall>q\<in>set xs. P q \<longrightarrow> f p \<le> f q)"
  using assms
proof (induction xs)
  case Nil
  then show ?case by simp
next
  case (Cons x xs)
  show ?case
  proof (cases "P x")
    case True
    with Cons.prems show ?thesis by auto
  next
    case False
    with Cons.prems have "sorted (map f xs)" and "find P xs = Some p" by simp_all
    from Cons.IH [OF this] False show ?thesis by auto
  qed
qed

lemma matchingRuns_set:
  "set (matchingRuns sel rs) = {r \<in> set rs. scenario_id r = scn_id sel}"
  by (simp add: matchingRuns_def)

lemma matchingRuns_sorted:
  "sorted (map (\<lambda>r. - created_at r) (matchingRuns sel rs))"
  by (simp add: matchingRuns_def)

lemma matchingRuns_Nil:
  "(matchingRuns sel rs = []) = (filter (\<lambda>r. scenario_id r = scn_id sel) rs = [])"
proof -
  have "length (matchingRuns sel rs) = length (filter (\<lambda>r. scenario_id r = scn_id sel) rs)"
    by (simp add: matchingRuns_def)
  then show ?thesis by (metis length_0_conv)
qed

lemma preferredRun_live:
  assumes "selectedScenario s = Some sel"
    and "q \<in> set (runs s)" and "scenario_id q = scn_id sel" and "isLiveStage (run_stage q)"
  shows "\<exists>p \<in> set (runs s). scenario_id p = scn_id sel \<and> preferredRun s = Some p
           \<and> isLiveStage (run_stage p)
           \<and> (\<forall>q \<in> set (runs s). scenario_id q = scn_id sel \<and> isLiveStage (run_stage q)
                 \<longrightarrow> created_at q \<le> created_at p)"
proof -
  let ?m = "matchingRuns sel (runs s)"
  let ?P = "\<lambda>r. run_stage r = RUNNING \<or> run_stage r = WARMING_UP"
  from assms have qm: "q \<in> set ?m" and "?P q"
    by (simp_all add: matchingRuns_set isLiveStage_def)
  then have "find ?P ?m \<noteq> None" by (auto simp add: find_None_iff)
  then obtain p where f: "find ?P ?m = Some p" by auto
  from find_sorted_first [OF matchingRuns_sorted f]
  have p: "p \<in> set ?m" "?P p" "\<forall>q\<in>set ?m. ?P q \<longrightarrow> - created_at p \<le> - created_at q"
    by simp_all
  from qm obtain first rest where m: "?m = first # rest" by (cases ?m) auto
  from assms(1,2) f m have "preferredRun s = Some p"
    by (auto simp add: preferredRun_def)
  with p show ?thesis
    by (auto simp add: matchingRuns_set isLiveStage_def)
qed

lemma preferredRun_newest:
  assumes "selectedScenario s = Some sel"
    and "filter (\<lambda>r. scenario_id r = scn_id sel) (runs s) \<noteq> []"
    and "\<forall>q \<in> set (runs s). scenario_id q = scn_id sel \<longrightarrow> \<not> isLiveStage (run_stage q)"
  shows "\<exists>p \<in> set (runs s). scenario_id p = scn_id sel \<and> preferredRun s = Some p
           \<and> (\<forall>q \<in> set (runs s). scenario_id q = scn_id sel \<longrightarrow> created_at q \<le> created_at p)"
proof -
  let ?m = "matchingRuns sel (runs s)"
  let ?P = "\<lambda>r. run_stage r = RUNNING \<or> run_stage r = WARMING_UP"
  from assms(2) have "?m \<noteq> []" by (simp add: matchingRuns_Nil)
  then obtain first rest where m: "?m = first # rest" by (cases ?m) auto
  from assms(3) have "find ?P ?m = None"
    by (auto simp add: find_None_iff matchingRuns_set isLiveStage_def)
  with assms(1,2) m have pr: "preferredRun s = Some first"
    by (auto simp add: preferredRun_def)
  from m have fm: "first \<in> set ?m" by simp
  have "sorted (map (\<lambda>r. - created_at r) (first # rest))"
    using matchingRuns_sorted [of sel "runs s"] by (simp only: m)
  then have "\<forall>q \<in> set ?m. created_at q \<le> created_at first"
    by (auto simp add: m)
  with pr fm show ?thesis by (auto simp add: matchingRuns_set)
qed

lemma preferredRun_none:
  "selectedScenario s = None \<Longrightarrow> preferredRun s = None"
  "selectedScenario s = Some sel \<Longrightarrow> filter (\<lambda>r. scenario_id r = scn_id sel) (runs s) = []
     \<Longrightarrow> preferredRun s = None"
proof -
  show "selectedScenario s = None \<Longrightarrow> preferredRun s = None"
    by (simp add: preferredRun_def)
  assume a: "selectedScenario s = Some sel"
    and b: "filter (\<lambda>r. scenario_id r = scn_id sel) (runs s) = []"
  from b have "matchingRuns sel (runs s) = []" by (simp add: matchingRuns_Nil)
  with a show "preferredRun s = None" by (simp add: preferredRun_def)
qed

lemma autoSelect_preferred:
  "autoSelect s
     = (case preferredRun s of
          None \<Rightarrow> None
        | Some p \<Rightarrow> if map_option run_id (activeRun s) = Some (run_id p) then None
                     else Some (run_id p))"
  by (cases "preferredRun s"; cases "activeRun s") (auto simp add: autoSelect_def)

lemma catalogState_fields:
  "selectedScenario catalogState = Some scenarioA"
  "runs catalogState = [runTwo, runOne]"
  "activeRun catalogState = None"
  by (code_simp)+

lemma manualState_fields:
  "selectedScenario manualState = Some scenarioA"
  "runs manualState = [runTwo, runOne]"
  "activeRun manualState = Some completedDetail"
  by (code_simp)+

lemma finishedState_fields:
  "selectedScenario finishedState = Some scenarioA"
  "runs finishedState = [runTwo, runThree]"
  "activeRun finishedState = None"
  by (code_simp)+

text \<open>
  Claim C7. The run history lets the operator pick a run to replay: its buttons call
  \<^verbatim>\<open>handleRunSelect\<close>. Here the operator has picked the completed run \<open>run-2\<close> while the
  running run \<open>run-1\<close> of the same scenario is listed. \<open>run-2\<close> becomes the active run, the
  effect runs again because the id of the active run is one of its dependencies, and it
  calls \<^verbatim>\<open>handleRunSelect\<close> with \<open>run-1\<close>, which replaces the run the operator picked: the
  code overrides the manual selection that the claim says it never overrides.
\<close>

theorem auto_select_overrides_manual_selection:
  "map_option run_id (activeRun manualState) = Some ''run-2''
   \<and> autoSelect manualState = Some ''run-1''
   \<and> map_option run_id (activeRun (step (RunSelected ''run-1'' sampleDetail []) manualState))
       = Some ''run-1''"
  by code_simp

text \<open>
  The choice of the effect. It does nothing without a selected scenario or without a run of
  that scenario. Otherwise its preferred run is a run of the selected scenario: one whose
  stage is RUNNING or WARMING_UP, created no earlier than any other such run, if there is
  one, and else one created no earlier than any other run of the scenario.
\<close>

lemma auto_select_heuristic:
  "(selectedScenario s = None \<longrightarrow> autoSelect s = None)
   \<and> (selectedScenario s = Some sel
        \<and> filter (\<lambda>r. scenario_id r = scn_id sel) (runs s) = [] \<longrightarrow> autoSelect s = None)
   \<and> (selectedScenario s = Some sel
        \<and> (\<exists>q \<in> set (runs s). scenario_id q = scn_id sel \<and> isLiveStage (run_stage q)) \<longrightarrow>
        (\<exists>p \<in> set (runs s). scenario_id p = scn_id sel \<and> preferredRun s = Some p
           \<and> isLiveStage (run_stage p)
           \<and> (\<forall>q \<in> set (runs s). scenario_id q = scn_id sel \<and> isLiveStage (run_stage q)
                 \<longrightarrow> created_at q \<le> created_at p)
           \<and> autoSelect s = (if map_option run_id (activeRun s) = Some (run_id p) then None
                              else Some (run_id p))))
   \<and> (selectedScenario s = Some sel
        \<and> filter (\<lambda>r. scenario_id r = scn_id sel) (runs s) \<noteq> []
        \<and> (\<forall>q \<in> set (runs s). scenario_id q = scn_id sel \<longrightarrow> \<not> isLiveStage (run_stage q)) \<longrightarrow>
        (\<exists>p \<in> set (runs s). scenario_id p = scn_id sel \<and> preferredRun s = Some p
           \<and> (\<forall>q \<in> set (runs s). scenario_id q = scn_id sel \<longrightarrow> created_at q \<le> created_at p)
           \<and> autoSelect s = (if map_option run_id (activeRun s) = Some (run_id p) then None
                              else Some (run_id p))))"
proof -
  have a: "selectedScenario s = None \<longrightarrow> autoSelect s = None"
    by (simp add: autoSelect_preferred preferredRun_none(1))
  have b: "selectedScenario s = Some sel
        \<and> filter (\<lambda>r. scenario_id r = scn_id sel) (runs s) = [] \<longrightarrow> autoSelect s = None"
    by (simp add: autoSelect_preferred preferredRun_none(2))
  have c: "\<exists>p \<in> set (runs s). scenario_id p = scn_id sel \<and> preferredRun s = Some p
           \<and> isLiveStage (run_stage p)
           \<and> (\<forall>q \<in> set (runs s). scenario_id q = scn_id sel \<and> isLiveStage (run_stage q)
                 \<longrightarrow> created_at q \<le> created_at p)
           \<and> autoSelect s = (if map_option run_id (activeRun s) = Some (run_id p) then None
                              else Some (run_id p))"
    if "selectedScenario s = Some sel"
      and "\<exists>q \<in> set (runs s). scenario_id q = scn_id sel \<and> isLiveStage (run_stage q)"
  proof -
    from that(2) obtain q where "q \<in> set (runs s)" "scenario_id q = scn_id sel"
      "isLiveStage (run_stage q)" by blast
    from preferredRun_live [OF that(1) this] obtain p where
      "p \<in> set (runs s)" "scenario_id p = scn_id sel" "preferredRun s = Some p"
      "isLiveStage (run_stage p)"
      "\<forall>q \<in> set (runs s). scenario_id q = scn_id sel \<and> isLiveStage (run_stage q)
         \<longrightarrow> created_at q \<le> created_at p"
      by blast
    then show ?thesis by (intro bexI [of _ p]) (simp_all add: autoSelect_preferred)
  qed
  have d: "\<exists>p \<in> set (runs s). scenario_id p = scn_id sel \<and> preferredRun s = Some p
           \<and> (\<forall>q \<in> set (runs s). scenario_id q = scn_id sel \<longrightarrow> created_at q \<le> created_at p)
           \<and> autoSelect s = (if map_option run_id (activeRun s) = Some (run_id p) then None
                              else Some (run_id p))"
    if "selectedScenario s = Some sel"
      and "filter (\<lambda>r. scenario_id r = scn_id sel) (runs s) \<noteq> []"
      and "\<forall>q \<in> set (runs s). scenario_id q = scn_id sel \<longrightarrow> \<not> isLiveStage (run_stage q)"
  proof -
    from preferredRun_newest [OF that] obtain p where
      "p \<in> set (runs s)" "scenario_id p = scn_id sel" "preferredRun s = Some p"
      "\<forall>q \<in> set (runs s). scenario_id q = scn_id sel \<longrightarrow> created_at q \<le> created_at p"
      by blast
    then show ?thesis by (intro bexI [of _ p]) (simp_all add: autoSelect_preferred)
  qed
  from a b c d show ?thesis by blast
qed

lemma auto_select_heuristic_sample:
  "selectedScenario catalogState = Some scenarioA
   \<and> runOne \<in> set (runs catalogState) \<and> scenario_id runOne = scn_id scenarioA
   \<and> isLiveStage (run_stage runOne)
   \<and> preferredRun catalogState = Some runOne
   \<and> autoSelect catalogState = Some ''run-1''
   \<and> selectedScenario finishedState = Some scenarioA
   \<and> filter (\<lambda>r. scenario_id r = scn_id scenarioA) (runs finishedState) \<noteq> []
   \<and> \<not> isLiveStage (run_stage runTwo) \<and> \<not> isLiveStage (run_stage runThree)
   \<and> preferredRun finishedState = Some runThree
   \<and> autoSelect finishedState = Some ''run-3''
   \<and> autoSelect initial = None"
proof -
  have f: "scenario_id runOne = scn_id scenarioA" "scenario_id runTwo = scn_id scenarioA"
    "scenario_id runThree = scn_id scenarioA"
    "isLiveStage (run_stage runOne)" "\<not> isLiveStage (run_stage runTwo)"
    "\<not> isLiveStage (run_stage runThree)"
    "created_at runOne = 1000" "created_at runTwo = 500" "created_at runThree = 2000"
    "run_id runOne = ''run-1''" "run_id runTwo = ''run-2''" "run_id runThree = ''run-3''"
    by (simp_all add: runOne_def runTwo_def runThree_def scenarioA_def isLiveStage_def)
  have i: "selectedScenario initial = None" by (simp add: initial_def)
  from auto_select_heuristic [of catalogState scenarioA]
  obtain p where p: "p \<in> set (runs catalogState)" "preferredRun catalogState = Some p"
    "isLiveStage (run_stage p)"
    "autoSelect catalogState = (if map_option run_id (activeRun catalogState)
        = Some (run_id p) then None else Some (run_id p))"
    by (auto simp add: catalogState_fields f)
  then have "p = runOne" by (auto simp add: catalogState_fields f)
  with p have 1: "preferredRun catalogState = Some runOne"
    "autoSelect catalogState = Some ''run-1''"
    by (simp_all add: catalogState_fields f)
  from auto_select_heuristic [of finishedState scenarioA]
  obtain q where q: "q \<in> set (runs finishedState)" "preferredRun finishedState = Some q"
    "\<forall>r \<in> set (runs finishedState). scenario_id r = scn_id scenarioA
        \<longrightarrow> created_at r \<le> created_at q"
    "autoSelect finishedState = (if map_option run_id (activeRun finishedState)
        = Some (run_id q) then None else Some (run_id q))"
    by (auto simp add: finishedState_fields f)
  then have "q = runThree" by (auto simp add: finishedState_fields f)
  with q have 2: "preferredRun finishedState = Some runThree"
    "autoSelect finishedState = Some ''run-3''"
    by (simp_all add: finishedState_fields f)
  from auto_select_heuristic [of initial scenarioA] i
  have 3: "autoSelect initial = None" by simp
  from 1 2 3 show ?thesis by (simp add: catalogState_fields finishedState_fields f)
qed

subsection \<open>The heatmap layer\<close>

lemma drawEntry_fills:
  assumes "0 < maxCount" and "0 \<le> snd entry" and "snd entry \<le> maxCount"
  shows "fills (drawEntry sz maxCount ctx entry)
           = fills ctx @ (case entryFill sz maxCount entry of None \<Rightarrow> [] | Some f \<Rightarrow> [f])"
proof (cases entry)
  case (Pair key count)
  with assms have i: "min (count / maxCount) 1 = count / maxCount"
    and r: "0 \<le> count / maxCount" "count / maxCount \<le> 1"
    by simp_all
  show ?thesis
  proof (cases "cellOf key")
    case None
    with Pair show ?thesis by (simp add: drawEntry_def entryFill_def)
  next
    case (Some cell)
    obtain cx cy where c: "cell = (cx, cy)" by (cases cell)
    from Pair Some c i r show ?thesis
      by (simp add: drawEntry_def entryFill_def Let_def setGlobalAlpha_def fillRect_def)
  qed
qed

lemma foldl_drawEntry_fills:
  assumes "0 < maxCount" and "\<forall>e \<in> set entries. 0 \<le> snd e \<and> snd e \<le> maxCount"
  shows "fills (foldl (drawEntry sz maxCount) ctx entries)
           = fills ctx @ List.map_filter (entryFill sz maxCount) entries"
  using assms(2)
proof (induction entries arbitrary: ctx)
  case Nil
  then show ?case by simp
next
  case (Cons e es)
  then have "0 \<le> snd e" "snd e \<le> maxCount" by simp_all
  from drawEntry_fills [OF assms(1) this, of sz ctx] Cons show ?case
    by (simp split: option.splits)
qed

lemma visible_map_filter:
  assumes "0 < maxCount"
  shows "filter (\<lambda>f. 0 < fill_alpha f) (List.map_filter (entryFill sz maxCount) entries)
           = List.map_filter (entryFill sz maxCount) (filter (\<lambda>e. 0 < snd e) entries)"
proof (induction entries)
  case Nil
  then show ?case by simp
next
  case (Cons e es)
  obtain key count where e: "e = (key, count)" by (cases e)
  from assms have "(0 < count / maxCount) = (0 < count)" by (simp add: zero_less_divide_iff)
  with Cons e show ?case
    by (cases "cellOf key") (simp_all add: entryFill_def)
qed

lemma alpha_map_filter:
  assumes "0 < maxCount" and "\<forall>e \<in> set entries. 0 \<le> snd e \<and> snd e \<le> maxCount"
    and "f \<in> set (List.map_filter (entryFill sz maxCount) entries)"
  shows "0 \<le> fill_alpha f \<and> fill_alpha f \<le> 1"
proof -
  from assms(3) obtain e where "e \<in> set entries" and "entryFill sz maxCount e = Some f"
    by (auto simp add: List.map_filter_def)
  with assms(1,2) show ?thesis
    by (cases e) (auto simp add: entryFill_def)
qed

lemma snd_le_Max:
  assumes "e \<in> set entries"
  shows "snd e \<le> Max (set (map snd entries))"
  using assms by (intro Max_ge) auto

lemma Max_positive:
  assumes "e \<in> set entries" and "0 < snd e"
  shows "0 < Max (set (map snd entries))"
  using snd_le_Max [OF assms(1)] assms(2) by simp

lemma Max_nonpositive:
  assumes "entries \<noteq> []" and "\<forall>e \<in> set entries. snd e \<le> 0"
  shows "Max (set (map snd entries)) \<le> (0::real)"
  using assms by (intro Max.boundedI) auto

lemma drawHeatmap_nothing:
  "drawHeatmap ctx None sz = ctx"
  "drawHeatmap ctx (Some []) sz = ctx"
  "entries \<noteq> [] \<Longrightarrow> \<forall>e \<in> set entries. snd e \<le> 0 \<Longrightarrow> drawHeatmap ctx (Some entries) sz = ctx"
  using Max_nonpositive [of entries]
  by (simp_all add: drawHeatmap_def Let_def)

lemma drawHeatmap_fills:
  assumes "\<forall>e \<in> set entries. 0 \<le> snd e" and "e \<in> set entries" and "0 < snd e"
  shows "fills (drawHeatmap ctx (Some entries) sz)
           = fills ctx @ List.map_filter (entryFill sz (Max (set (map snd entries)))) entries"
    and "globalAlpha (drawHeatmap ctx (Some entries) sz) = 1"
proof -
  let ?m = "Max (set (map snd entries))"
  have pos: "0 < ?m" by (rule Max_positive [OF assms(2,3)])
  from assms(2) have ne: "entries \<noteq> []" by auto
  from assms(1) have b: "\<forall>e \<in> set entries. 0 \<le> snd e \<and> snd e \<le> ?m"
    using snd_le_Max [of _ entries] by blast
  from pos have nle: "\<not> ?m \<le> 0" by simp
  have d: "drawHeatmap ctx (Some entries) sz
      = (foldl (drawEntry sz ?m) ctx entries)\<lparr>globalAlpha := 1\<rparr>"
    by (simp only: drawHeatmap_def Let_def option.case ne nle if_False)
  show "fills (drawHeatmap ctx (Some entries) sz)
           = fills ctx @ List.map_filter (entryFill sz ?m) entries"
    unfolding d using foldl_drawEntry_fills [OF pos b, of sz ctx] by simp
  show "globalAlpha (drawHeatmap ctx (Some entries) sz) = 1"
    unfolding d by simp
qed

lemma sample_cells:
  "cellOf ''0:0'' = Some (0, 0)" "cellOf ''1:0'' = Some (1, 0)" "cellOf ''2:0'' = Some (2, 0)"
  "cellOf ''A'' = None" "cellOf ''12:7'' = Some (12, 7)" "cellOf '' -3:4px'' = Some (-3, 4)"
  "cellOf ([CHR 0xC2, CHR 0xA0] @ ''5:1'') = Some (5, 1)"
  "cellOf (''7:'' @ [CHR 0xE2, CHR 0x80, CHR 0x89, CHR 0x20] @ ''+2'') = Some (7, 2)"
  by code_simp+

text \<open>
  Claim C8. Without a heatmap, with an empty one, or with one whose counts are all zero
  (or below), \<^verbatim>\<open>drawHeatmap\<close> returns the context as it got it: no fill, no failure. With
  counts that are not negative and one that is positive, it makes one fill per entry whose
  key names a cell, in the order of the entries, at that cell and of the cell size, with alpha
  equal to the count divided by the largest count of the heatmap, a number from 0 to 1; the
  fills that can be seen (alpha above 0) are those of the entries with a positive count, so a
  cell with count 0 shows nothing. Counts 10, 5 and 0 give alpha 1, 1/2 and 0.
\<close>

theorem heatmap_intensity:
  "drawHeatmap ctx None sz = ctx
   \<and> drawHeatmap ctx (Some []) sz = ctx
   \<and> (entries \<noteq> [] \<and> (\<forall>e \<in> set entries. snd e \<le> 0) \<longrightarrow>
        drawHeatmap ctx (Some entries) sz = ctx)
   \<and> ((\<forall>e \<in> set entries. 0 \<le> snd e) \<and> (\<exists>e \<in> set entries. 0 < snd e) \<longrightarrow>
        fills (drawHeatmap ctx (Some entries) sz)
          = fills ctx @ List.map_filter (entryFill sz (Max (set (map snd entries)))) entries
      \<and> (\<forall>f \<in> set (List.map_filter (entryFill sz (Max (set (map snd entries)))) entries).
            0 \<le> fill_alpha f \<and> fill_alpha f \<le> 1)
      \<and> visibleFills (drawHeatmap ctx (Some entries) sz)
          = visibleFills ctx
            @ List.map_filter (entryFill sz (Max (set (map snd entries))))
                (filter (\<lambda>e. 0 < snd e) entries)
      \<and> globalAlpha (drawHeatmap ctx (Some entries) sz) = 1)
   \<and> (cellOf key = Some cell \<longrightarrow>
        entryFill sz maxCount (key, count)
          = Some \<lparr>fill_x = real_of_int (fst cell) * sz, fill_y = real_of_int (snd cell) * sz,
                  fill_w = sz, fill_h = sz, fill_alpha = count / maxCount,
                  fill_style = cellGradient sz cell\<rparr>)
   \<and> (cellOf key = None \<longrightarrow> entryFill sz maxCount (key, count) = None)"
proof -
  let ?m = "Max (set (map snd entries))"
  have a: "entries \<noteq> [] \<and> (\<forall>e \<in> set entries. snd e \<le> 0) \<longrightarrow>
        drawHeatmap ctx (Some entries) sz = ctx"
    using drawHeatmap_nothing(3) [of entries ctx sz] by blast
  have b: "fills (drawHeatmap ctx (Some entries) sz)
          = fills ctx @ List.map_filter (entryFill sz ?m) entries
      \<and> (\<forall>f \<in> set (List.map_filter (entryFill sz ?m) entries).
            0 \<le> fill_alpha f \<and> fill_alpha f \<le> 1)
      \<and> visibleFills (drawHeatmap ctx (Some entries) sz)
          = visibleFills ctx
            @ List.map_filter (entryFill sz ?m) (filter (\<lambda>e. 0 < snd e) entries)
      \<and> globalAlpha (drawHeatmap ctx (Some entries) sz) = 1"
    if nn: "\<forall>e \<in> set entries. 0 \<le> snd e" and ex: "\<exists>e \<in> set entries. 0 < snd e"
  proof -
    from ex obtain e where e: "e \<in> set entries" "0 < snd e" by blast
    have pos: "0 < ?m" by (rule Max_positive [OF e])
    from nn have bd: "\<forall>e \<in> set entries. 0 \<le> snd e \<and> snd e \<le> ?m"
      using snd_le_Max [of _ entries] by blast
    note f = drawHeatmap_fills [OF nn e, of ctx sz]
    have v: "visibleFills (drawHeatmap ctx (Some entries) sz)
          = visibleFills ctx
            @ List.map_filter (entryFill sz ?m) (filter (\<lambda>e. 0 < snd e) entries)"
      using visible_map_filter [OF pos, of sz entries]
      by (simp add: visibleFills_def f(1))
    from f v alpha_map_filter [OF pos bd] show ?thesis by blast
  qed
  have c: "cellOf key = Some cell \<longrightarrow>
        entryFill sz maxCount (key, count)
          = Some \<lparr>fill_x = real_of_int (fst cell) * sz, fill_y = real_of_int (snd cell) * sz,
                  fill_w = sz, fill_h = sz, fill_alpha = count / maxCount,
                  fill_style = cellGradient sz cell\<rparr>"
    by (simp add: entryFill_def)
  have d: "cellOf key = None \<longrightarrow> entryFill sz maxCount (key, count) = None"
    by (simp add: entryFill_def)
  from a b c d drawHeatmap_nothing(1,2) [of ctx sz] show ?thesis by blast
qed

lemma sampleHeatmap_max: "Max (set (map snd sampleHeatmap)) = 10"
  by (simp add: sampleHeatmap_def)

theorem heatmap_intensity_witness:
  "cellOf ''0:0'' = Some (0, 0) \<and> cellOf ''A'' = None
   \<and> map fill_alpha (fills (drawHeatmap blankContext (Some sampleHeatmap) 20)) = [1, 1/2, 0]
   \<and> map fill_x (fills (drawHeatmap blankContext (Some sampleHeatmap) 20)) = [0, 20, 40]
   \<and> map fill_alpha (visibleFills (drawHeatmap blankContext (Some sampleHeatmap) 20)) = [1, 1/2]
   \<and> map fill_x (visibleFills (drawHeatmap blankContext (Some sampleHeatmap) 20)) = [0, 20]
   \<and> [(''0:0'', 0), (''1:0'', 0)] \<noteq> ([] :: Heatmap)
   \<and> drawHeatmap blankContext (Some [(''0:0'', 0), (''1:0'', 0)]) 20 = blankContext
   \<and> drawHeatmap blankContext (Some []) 20 = blankContext"
proof -
  have h: "(\<forall>e \<in> set sampleHeatmap. 0 \<le> snd e) \<and> (\<exists>e \<in> set sampleHeatmap. 0 < snd e)"
    by (simp add: sampleHeatmap_def)
  have b: "fills blankContext = []" "visibleFills blankContext = []"
    by (simp_all add: blankContext_def visibleFills_def)
  from heatmap_intensity [of blankContext 20 sampleHeatmap "''0:0''" "(0, 0)" 10 10] h
    sampleHeatmap_max
  have f: "fills (drawHeatmap blankContext (Some sampleHeatmap) 20)
      = List.map_filter (entryFill 20 10) sampleHeatmap"
    and v: "visibleFills (drawHeatmap blankContext (Some sampleHeatmap) 20)
      = List.map_filter (entryFill 20 10) (filter (\<lambda>e. 0 < snd e) sampleHeatmap)"
    by (simp_all add: b)
  from heatmap_intensity [of blankContext 20 "[(''0:0'', 0), (''1:0'', 0)]" "''A''" "(0, 0)" 10 10]
  have z: "drawHeatmap blankContext (Some [(''0:0'', 0), (''1:0'', 0)]) 20 = blankContext"
    and e: "drawHeatmap blankContext (Some []) 20 = blankContext"
    by simp_all
  have fa: "map fill_alpha (fills (drawHeatmap blankContext (Some sampleHeatmap) 20))
      = [1, 1/2, 0]"
    and fx: "map fill_x (fills (drawHeatmap blankContext (Some sampleHeatmap) 20)) = [0, 20, 40]"
    unfolding f by (simp_all add: sampleHeatmap_def entryFill_def sample_cells)
  have va: "map fill_alpha (visibleFills (drawHeatmap blankContext (Some sampleHeatmap) 20))
      = [1, 1/2]"
    and vx: "map fill_x (visibleFills (drawHeatmap blankContext (Some sampleHeatmap) 20))
      = [0, 20]"
    unfolding v by (simp_all add: sampleHeatmap_def entryFill_def sample_cells)
  from z e fa fx va vx show ?thesis
    by (simp add: sample_cells)
qed

end
